theory Spec2Isabelle
  imports Complex_Main "HOL-Library.AList"
begin

section \<open>Incoming sync integration (src/sync/incomingSyncUtils.js)\<close>

subsection \<open>JavaScript values\<close>

text \<open>
  The internal record types, the strings the source switches on. \<open>OtherType\<close> stands
  for every string that is none of them (the \<open>default:\<close> branches).
\<close>

datatype etype =
    Address | Item | ItemBatch | ItemCategory | ItemDepartment | ItemStoreJoin
  | MasterList | MasterListItem | MasterListNameJoin | Name | NameStoreJoin
  | NumberSequence | NumberToReuse | Requisition | RequisitionItem | Stocktake
  | StocktakeBatch | Transaction | TransactionBatch | TransactionCategory | User
  | OtherType

text \<open>
  JavaScript numbers: NaN, the two infinities, and the finite doubles, each written as
  the real number it stands for. The sign of zero is not modelled.
\<close>

datatype jsnum = NaN | Fin real | PInf | NInf

text \<open>
  JavaScript values as the engine handles them. A \<open>Date\<close> stays symbolic:
  \<open>VDate x\<close> is \<open>new Date(x)\<close>, \<open>VDateHMS x h m s\<close> is that date after
  \<open>setHours(h, m, s)\<close>, \<open>VNow t\<close> is \<open>new Date()\<close> at clock reading \<open>t\<close>.
  A database object is referred to by its type and identifier (\<open>VRef\<close>); a
  collection of dependents is a list of such references (\<open>VList\<close>).
\<close>

datatype val =
    VUndef | VNull | VBool bool | VNum jsnum | VStr string
  | VDate val | VDateHMS val val val val | VNow nat
  | VRef etype val | VList "val list"

text \<open>ToBoolean: what \<open>!x\<close>, \<open>x ? a : b\<close> and \<open>x && y\<close> test.\<close>

fun truthy :: "val \<Rightarrow> bool" where
  "truthy VUndef = False"
| "truthy VNull = False"
| "truthy (VBool b) = b"
| "truthy (VNum n) = (n \<noteq> NaN \<and> n \<noteq> Fin 0)"
| "truthy (VStr s) = (s \<noteq> [])"
| "truthy (VDate x) = True"
| "truthy (VDateHMS x h m s) = True"
| "truthy (VNow t) = True"
| "truthy (VRef T k) = True"
| "truthy (VList xs) = True"

text \<open>\<open>a && b\<close>: the left operand when it is falsy, the right one otherwise.\<close>

definition js_and :: "val \<Rightarrow> val \<Rightarrow> val" where
  "js_and a b = (if truthy a then b else a)"

text \<open>\<open>a && b1 && ... && bn\<close>, which JavaScript groups to the left.\<close>

fun js_ands :: "val \<Rightarrow> val list \<Rightarrow> val" where
  "js_ands a [] = a"
| "js_ands a (b # bs) = js_ands (js_and a b) bs"

definition js_not :: "val \<Rightarrow> val" where
  "js_not a = VBool (\<not> truthy a)"

text \<open>\<open>typeof x === 'string'\<close>\<close>

fun typeofString :: "val \<Rightarrow> bool" where
  "typeofString (VStr s) = True"
| "typeofString v = False"

text \<open>
  \<open>x.length < 1\<close> and \<open>x.length >= 6\<close>. The source reads \<open>length\<close> only behind a
  truthiness test of \<open>x\<close>, on a record field or a key; of the truthy values these can
  be only a string has a length, for the others \<open>x.length\<close> is \<open>undefined\<close> and
  both comparisons are false.
\<close>

fun lengthLt1 :: "val \<Rightarrow> bool" where
  "lengthLt1 (VStr s) = (length s < 1)"
| "lengthLt1 v = False"

fun lengthGe6 :: "val \<Rightarrow> bool" where
  "lengthGe6 (VStr s) = (length s \<ge> 6)"
| "lengthGe6 v = False"

text \<open>\<open>x.substring(a, b)\<close> for \<open>a \<le> b\<close>, on a string.\<close>

fun substring :: "nat \<Rightarrow> nat \<Rightarrow> val \<Rightarrow> val" where
  "substring a b (VStr s) = VStr (take (b - a) (drop a s))"
| "substring a b v = VUndef"

subsection \<open>The collaborators the source imports\<close>

text \<open>
  The settings, the translation tables of \<open>./syncTranslators\<close>, the identifier
  generator of \<open>../database\<close> and the JavaScript built-ins \<open>parseFloat\<close> and the
  clock are not part of the file; they are parameters of the model.
  \<open>uuidOf n\<close> is the \<open>n\<close>-th identifier \<open>generateUUID()\<close> hands out.
  \<open>roundD x\<close> is the double that IEEE 754 rounds the real \<open>x\<close> to, an infinity when
  \<open>x\<close> is beyond the range of the doubles: the rounding every arithmetic operation of
  JavaScript ends with.
\<close>

record env =
  thisStoreId :: val
  parseFloat :: "val \<Rightarrow> jsnum"
  roundD :: "real \<Rightarrow> jsnum"
  clock :: nat
  uuidOf :: "nat \<Rightarrow> val"
  NAME_TYPES :: "val \<Rightarrow> val"
  REQUISITION_TYPES :: "val \<Rightarrow> val"
  SEQUENCE_KEYS :: "val \<Rightarrow> val \<Rightarrow> val"
  STATUSES :: "val \<Rightarrow> val"
  TRANSACTION_TYPES :: "val \<Rightarrow> val"

subsection \<open>Arithmetic\<close>

text \<open>
  JavaScript multiplication and division of numbers, as IEEE 754 defines them: the exact
  real result, rounded to a double by \<open>roundD\<close>, with the rules for NaN, the
  infinities and a zero divisor.
\<close>

fun jmul :: "env \<Rightarrow> jsnum \<Rightarrow> jsnum \<Rightarrow> jsnum" where
  "jmul e NaN y = NaN"
| "jmul e x NaN = NaN"
| "jmul e (Fin a) (Fin b) = roundD e (a * b)"
| "jmul e (Fin a) PInf = (if a = 0 then NaN else if a > 0 then PInf else NInf)"
| "jmul e (Fin a) NInf = (if a = 0 then NaN else if a > 0 then NInf else PInf)"
| "jmul e PInf (Fin b) = (if b = 0 then NaN else if b > 0 then PInf else NInf)"
| "jmul e NInf (Fin b) = (if b = 0 then NaN else if b > 0 then NInf else PInf)"
| "jmul e PInf PInf = PInf"
| "jmul e PInf NInf = NInf"
| "jmul e NInf PInf = NInf"
| "jmul e NInf NInf = PInf"

fun jdiv :: "env \<Rightarrow> jsnum \<Rightarrow> jsnum \<Rightarrow> jsnum" where
  "jdiv e NaN y = NaN"
| "jdiv e x NaN = NaN"
| "jdiv e (Fin a) (Fin b) =
     (if b = 0 then (if a = 0 then NaN else if a > 0 then PInf else NInf)
      else roundD e (a / b))"
| "jdiv e (Fin a) PInf = Fin 0"
| "jdiv e (Fin a) NInf = Fin 0"
| "jdiv e PInf (Fin b) = (if b \<ge> 0 then PInf else NInf)"
| "jdiv e NInf (Fin b) = (if b \<ge> 0 then NInf else PInf)"
| "jdiv e PInf PInf = NaN"
| "jdiv e PInf NInf = NaN"
| "jdiv e NInf PInf = NaN"
| "jdiv e NInf NInf = NaN"

text \<open>
  ToNumber on the operands the engine multiplies and divides: what \<open>parseNumber\<close>
  returns (a number or \<open>null\<close>) and the stored \<open>daysToSupply\<close>, a number field.
  \<open>undefined\<close> is NaN and a boolean is 0 or 1. For a string, a date or an object the
  model gives NaN where JavaScript would convert the value; no such operand comes from
  \<open>parseNumber\<close> or from a number field.
\<close>

fun toNumber :: "val \<Rightarrow> jsnum" where
  "toNumber (VNum n) = n"
| "toNumber VNull = Fin 0"
| "toNumber (VBool b) = (if b then Fin 1 else Fin 0)"
| "toNumber v = NaN"

text \<open>\<open>a * b\<close> and \<open>a / b\<close>\<close>

definition js_mul :: "env \<Rightarrow> val \<Rightarrow> val \<Rightarrow> val" where
  "js_mul e a b = VNum (jmul e (toNumber a) (toNumber b))"

definition js_div :: "env \<Rightarrow> val \<Rightarrow> val \<Rightarrow> val" where
  "js_div e a b = VNum (jdiv e (toNumber a) (toNumber b))"

subsection \<open>Sync records\<close>

text \<open>
  The data of a sync record: a flat mapping from field names to strings (spec, section
  3). Reading a field that is absent gives \<open>undefined\<close>.
\<close>

type_synonym syncData = "string \<rightharpoonup> string"

definition fld :: "syncData \<Rightarrow> string \<Rightarrow> val" where
  "fld r k = (case r k of None \<Rightarrow> VUndef | Some s \<Rightarrow> VStr s)"

subsection \<open>Scalar parsers\<close>

definition parseDate :: "val \<Rightarrow> val \<Rightarrow> val" where
  "parseDate ISODate ISOTime =
     (if \<not> truthy ISODate \<or> lengthLt1 ISODate \<or> ISODate = VStr ''0000-00-00T00:00:00''
      then VNull
      else if truthy ISOTime \<and> lengthGe6 ISOTime
        then VDateHMS ISODate (substring 0 2 ISOTime) (substring 2 4 ISOTime)
               (substring 4 6 ISOTime)
        else VDate ISODate)"

definition parseNumber :: "env \<Rightarrow> val \<Rightarrow> val" where
  "parseNumber e numberString =
     (if \<not> truthy numberString \<or> lengthLt1 numberString then VNull
      else VNum (parseFloat e numberString))"

definition trueStrings :: "val list" where
  "trueStrings = [VStr ''true'', VStr ''True'', VStr ''TRUE'']"

text \<open>\<open>trueStrings.indexOf(x) >= 0\<close>: \<open>x\<close> is strictly equal to an element.\<close>

definition parseBoolean :: "val \<Rightarrow> val" where
  "parseBoolean booleanString =
     js_and booleanString (VBool (booleanString \<in> set trueStrings))"

subsection \<open>The sanity check\<close>

definition sanityCheckIncomingRecord :: "etype \<Rightarrow> syncData \<Rightarrow> val" where
  "sanityCheckIncomingRecord recordType r =
     (if \<not> truthy (fld r ''ID'') \<or> lengthLt1 (fld r ''ID'') then VBool False
      else case recordType of
        Item \<Rightarrow> js_ands (fld r ''code'') [fld r ''item_name'', fld r ''default_pack_size'']
      | ItemCategory \<Rightarrow> VBool (typeofString (fld r ''Description''))
      | ItemDepartment \<Rightarrow> VBool (typeofString (fld r ''department''))
      | ItemBatch \<Rightarrow> js_ands (fld r ''item_ID'')
          [fld r ''pack_size'', fld r ''quantity'', fld r ''batch'', fld r ''expiry_date'',
           fld r ''cost_price'', fld r ''sell_price'']
      | ItemStoreJoin \<Rightarrow> js_ands (fld r ''item_ID'') [fld r ''store_ID'']
      | MasterListNameJoin \<Rightarrow> js_ands (fld r ''name_ID'') [fld r ''list_master_ID'']
      | MasterList \<Rightarrow> VBool (typeofString (fld r ''description''))
      | MasterListItem \<Rightarrow> fld r ''item_ID''
      | Name \<Rightarrow> js_ands (fld r ''name'')
          [fld r ''code'', fld r ''type'', fld r ''customer'', fld r ''supplier'',
           fld r ''manufacturer'']
      | NameStoreJoin \<Rightarrow> js_ands (fld r ''name_ID'') [fld r ''store_ID'']
      | NumberSequence \<Rightarrow> js_ands (fld r ''name'') [fld r ''value'']
      | NumberToReuse \<Rightarrow> js_ands (fld r ''name'') [fld r ''number_to_use'']
      | Requisition \<Rightarrow> js_ands (fld r ''status'')
          [fld r ''date_entered'', fld r ''type'', fld r ''daysToSupply'',
           fld r ''serial_number'']
      | RequisitionItem \<Rightarrow> js_ands (fld r ''requisition_ID'')
          [fld r ''item_ID'', fld r ''stock_on_hand'', fld r ''Cust_stock_order'']
      | Stocktake \<Rightarrow> js_ands (fld r ''Description'')
          [fld r ''stock_take_created_date'', fld r ''status'', fld r ''serial_number'']
      | StocktakeBatch \<Rightarrow> js_ands (fld r ''stock_take_ID'')
          [fld r ''item_line_ID'', fld r ''snapshot_qty'', fld r ''snapshot_packsize'',
           fld r ''expiry'', fld r ''Batch'', fld r ''cost_price'', fld r ''sell_price'']
      | Transaction \<Rightarrow> js_ands (fld r ''invoice_num'')
          [fld r ''name_ID'', fld r ''entry_date'', fld r ''type'', fld r ''status'']
      | TransactionCategory \<Rightarrow> js_ands (fld r ''category'') [fld r ''code'', fld r ''type'']
      | TransactionBatch \<Rightarrow> js_ands (fld r ''item_ID'')
          [fld r ''item_name'', fld r ''item_line_ID'', fld r ''batch'', fld r ''expiry_date'',
           fld r ''pack_size'', fld r ''quantity'', fld r ''transaction_ID'',
           fld r ''cost_price'', fld r ''sell_price'']
      | _ \<Rightarrow> VBool False)"

subsection \<open>The local database\<close>

text \<open>
  An entity is its identifier and its other fields; a table keeps the entities of one type
  in insertion order; the database is one table per type, with the count of identifiers
  \<open>generateUUID()\<close> has handed out.
\<close>

type_synonym fields = "string \<rightharpoonup> val"
type_synonym obj = "val \<times> fields"
type_synonym table = "(val \<times> fields) list"

record db =
  tables :: "etype \<Rightarrow> table"
  uuidCount :: nat

definition emptyDB :: db where
  "emptyDB = \<lparr>tables = (\<lambda>T. []), uuidCount = 0\<rparr>"

text \<open>
  What the source can throw: the \<open>Error\<close> of \<open>generatePlaceholder\<close>, and the
  \<open>TypeError\<close> of JavaScript for a property access or method call on \<open>null\<close>.
\<close>

datatype error = UnsupportedObjectType | TypeError

text \<open>Sequencing of database actions; an exception ends the sequence.\<close>

definition unitM :: "'a \<Rightarrow> db \<Rightarrow> error + 'a \<times> db" where
  "unitM x d = Inr (x, d)"

definition doneM :: "db \<Rightarrow> error + db" where
  "doneM d = Inr d"

definition bindM ::
  "(db \<Rightarrow> error + 'a \<times> db) \<Rightarrow> ('a \<Rightarrow> db \<Rightarrow> error + 'b) \<Rightarrow> db \<Rightarrow> error + 'b" where
  "bindM m f d = (case m d of Inl x \<Rightarrow> Inl x | Inr (x, d') \<Rightarrow> f x d')"

definition thenM ::
  "(db \<Rightarrow> error + db) \<Rightarrow> (db \<Rightarrow> error + 'b) \<Rightarrow> db \<Rightarrow> error + 'b" where
  "thenM m f d = (case m d of Inl x \<Rightarrow> Inl x | Inr d' \<Rightarrow> f d')"

text \<open>
  Modelled from the spec: \<open>generateUUID\<close> of \<open>../database\<close> is not in the sources. The
  spec (section 6) calls it a process-wide unique identifier generator; the model hands
  out \<open>uuidOf 0\<close>, \<open>uuidOf 1\<close>, ... in turn.
\<close>

definition generateUUID :: "env \<Rightarrow> db \<Rightarrow> error + val \<times> db" where
  "generateUUID e d = Inr (uuidOf e (uuidCount d), d\<lparr>uuidCount := Suc (uuidCount d)\<rparr>)"

text \<open>
  Modelled from the spec: the \<open>Database\<close> class of \<open>../database\<close> is not in the
  sources. The spec (section 6) gives its contract: \<open>query(entityType, predicate)\<close> is a
  filtered lookup returning a sequence, \<open>create\<close> and \<open>update\<close> are an upsert by
  identifier with full overwrite of the fields (sections 3 and 4.6) that keeps the
  entity's place and identity, \<open>delete\<close> removes the entity.
  \<open>save\<close> is not part of that contract: the entities are live objects, written in
  place, and \<open>save\<close> stores nothing more.
\<close>

definition database_objects :: "db \<Rightarrow> etype \<Rightarrow> table" where
  "database_objects d T = tables d T"

text \<open>\<open>results.filtered('f == $0', v)\<close>; the field \<open>id\<close> is the identifier.\<close>

definition filtered :: "string \<Rightarrow> val \<Rightarrow> table \<Rightarrow> table" where
  "filtered f v rows =
     (if f = ''id'' then filter (\<lambda>row. fst row = v) rows
      else filter (\<lambda>row. snd row f = Some v) rows)"

definition database_update :: "etype \<Rightarrow> obj \<Rightarrow> db \<Rightarrow> error + val \<times> db" where
  "database_update T ob d =
     Inr (VRef T (fst ob),
          d\<lparr>tables := (tables d)(T := AList.update (fst ob) (snd ob) (tables d T))\<rparr>)"

definition database_create :: "etype \<Rightarrow> obj \<Rightarrow> db \<Rightarrow> error + val \<times> db" where
  "database_create T ob d = database_update T ob d"

definition database_save :: "etype \<Rightarrow> val \<Rightarrow> db \<Rightarrow> error + db" where
  "database_save T x d = Inr d"

text \<open>
  \<open>database.delete(type, entity)\<close>. The contract is about an entity; for \<open>null\<close> the
  model raises, as a method call on \<open>null\<close> does.
\<close>

fun database_delete :: "etype \<Rightarrow> val \<Rightarrow> db \<Rightarrow> error + db" where
  "database_delete T (VRef T' k) d =
     Inr (d\<lparr>tables := (tables d)(T' := AList.delete k (tables d T'))\<rparr>)"
| "database_delete T v d = Inl TypeError"

text \<open>
  Reading and writing a property of a live entity, \<open>x.f\<close> and \<open>x.f = v\<close>. On
  \<open>null\<close> JavaScript throws a TypeError.
\<close>

fun getField :: "val \<Rightarrow> string \<Rightarrow> db \<Rightarrow> error + val \<times> db" where
  "getField (VRef T k) f d =
     Inr (case map_of (tables d T) k of
            None \<Rightarrow> VUndef
          | Some fs \<Rightarrow> (case fs f of None \<Rightarrow> VUndef | Some v \<Rightarrow> v), d)"
| "getField x f d = Inl TypeError"

fun setField :: "val \<Rightarrow> string \<Rightarrow> val \<Rightarrow> db \<Rightarrow> error + db" where
  "setField (VRef T k) f v d =
     Inr (d\<lparr>tables := (tables d)(T := AList.map_entry k (\<lambda>fs. fs(f \<mapsto> v)) (tables d T))\<rparr>)"
| "setField x f v d = Inl TypeError"

text \<open>
  Modelled from the spec: the entity classes with their methods \<open>addBatch\<close>,
  \<open>addItem\<close>, \<open>addTransaction\<close>, \<open>addNumberToReuse\<close> and \<open>addTransactionBatch\<close> are
  not in the sources. The spec (section 3) has the parent keep the set of its dependents:
  the method adds the dependent to the parent's collection unless it is there. On
  \<open>null\<close> the call throws a TypeError.
\<close>

definition addTo :: "string \<Rightarrow> val \<Rightarrow> fields \<Rightarrow> fields" where
  "addTo coll dep fs =
     fs(coll \<mapsto> VList (List.insert dep (case fs coll of Some (VList xs) \<Rightarrow> xs | _ \<Rightarrow> [])))"

fun addDependent :: "val \<Rightarrow> string \<Rightarrow> val \<Rightarrow> db \<Rightarrow> error + db" where
  "addDependent (VRef T k) coll dep d =
     Inr (d\<lparr>tables := (tables d)(T := AList.map_entry k (addTo coll dep) (tables d T))\<rparr>)"
| "addDependent x coll dep d = Inl TypeError"

subsection \<open>Placeholders and the reference resolver\<close>

definition placeholderString :: val where
  "placeholderString = VStr ''placeholder''"

definition placeholderNumber :: val where
  "placeholderNumber = VNum (Fin 0)"

definition generatePlaceholder :: "env \<Rightarrow> etype \<Rightarrow> val \<Rightarrow> db \<Rightarrow> error + obj \<times> db" where
  "generatePlaceholder e type primaryKey =
     (let placeholderDate = VNow (clock e) in
      case type of
        Address \<Rightarrow> unitM (primaryKey, Map.empty)
      | Item \<Rightarrow> unitM (primaryKey,
          [''code'' \<mapsto> placeholderString, ''name'' \<mapsto> placeholderString,
           ''defaultPackSize'' \<mapsto> placeholderNumber])
      | ItemCategory \<Rightarrow> unitM (primaryKey, [''name'' \<mapsto> placeholderString])
      | ItemDepartment \<Rightarrow> unitM (primaryKey, [''name'' \<mapsto> placeholderString])
      | ItemBatch \<Rightarrow> unitM (primaryKey,
          [''packSize'' \<mapsto> placeholderNumber, ''numberOfPacks'' \<mapsto> placeholderNumber,
           ''expiryDate'' \<mapsto> placeholderDate, ''batch'' \<mapsto> placeholderString,
           ''costPrice'' \<mapsto> placeholderNumber, ''sellPrice'' \<mapsto> placeholderNumber])
      | MasterList \<Rightarrow> unitM (primaryKey, [''name'' \<mapsto> placeholderString])
      | Name \<Rightarrow> unitM (primaryKey,
          [''name'' \<mapsto> placeholderString, ''code'' \<mapsto> placeholderString,
           ''type'' \<mapsto> placeholderString, ''isCustomer'' \<mapsto> VBool False,
           ''isSupplier'' \<mapsto> VBool False, ''isManufacturer'' \<mapsto> VBool False])
      | NumberSequence \<Rightarrow>
          bindM (generateUUID e) (\<lambda>u. unitM (u, [''sequenceKey'' \<mapsto> primaryKey]))
      | Stocktake \<Rightarrow> unitM (primaryKey,
          [''name'' \<mapsto> placeholderString, ''createdDate'' \<mapsto> placeholderDate,
           ''status'' \<mapsto> placeholderString, ''serialNumber'' \<mapsto> placeholderString])
      | Transaction \<Rightarrow> unitM (primaryKey,
          [''serialNumber'' \<mapsto> placeholderString, ''comment'' \<mapsto> placeholderString,
           ''entryDate'' \<mapsto> placeholderDate, ''type'' \<mapsto> placeholderString,
           ''status'' \<mapsto> placeholderString, ''theirRef'' \<mapsto> placeholderString])
      | TransactionCategory \<Rightarrow> unitM (primaryKey,
          [''name'' \<mapsto> placeholderString, ''code'' \<mapsto> placeholderString,
           ''type'' \<mapsto> placeholderString])
      | User \<Rightarrow> unitM (primaryKey,
          [''username'' \<mapsto> placeholderString, ''passwordHash'' \<mapsto> placeholderString])
      | _ \<Rightarrow> (\<lambda>d. Inl UnsupportedObjectType))"

definition getObject :: "env \<Rightarrow> etype \<Rightarrow> val \<Rightarrow> string \<Rightarrow> db \<Rightarrow> error + val \<times> db" where
  "getObject e type primaryKey primaryKeyField d =
     (if \<not> truthy primaryKey \<or> lengthLt1 primaryKey then Inr (VNull, d)
      else case filtered primaryKeyField primaryKey (database_objects d type) of
             row # rest \<Rightarrow> Inr (VRef type (fst row), d)
           | [] \<Rightarrow> bindM (generatePlaceholder e type primaryKey) (database_create type) d)"

subsection \<open>The address deduplicator\<close>

definition getOrCreateAddress ::
  "env \<Rightarrow> val \<Rightarrow> val \<Rightarrow> val \<Rightarrow> val \<Rightarrow> val \<Rightarrow> db \<Rightarrow> error + val \<times> db" where
  "getOrCreateAddress e line1 line2 line3 line4 zipCode d =
     (let results = database_objects d Address;
          results = (if typeofString line1 then filtered ''line1'' line1 results else results);
          results = (if typeofString line2 then filtered ''line2'' line2 results else results);
          results = (if typeofString line3 then filtered ''line3'' line3 results else results);
          results = (if typeofString line4 then filtered ''line4'' line4 results else results);
          results = (if typeofString zipCode then filtered ''zipCode'' zipCode results
                     else results)
      in case results of
           row # rest \<Rightarrow> Inr (VRef Address (fst row), d)
         | [] \<Rightarrow>
             bindM (generateUUID e) (\<lambda>u.
               let address = Map.empty;
                   address = (if typeofString line1 then address(''line1'' \<mapsto> line1)
                              else address);
                   address = (if typeofString line2 then address(''line2'' \<mapsto> line2)
                              else address);
                   address = (if typeofString line3 then address(''line3'' \<mapsto> line3)
                              else address);
                   address = (if typeofString line4 then address(''line4'' \<mapsto> line4)
                              else address);
                   address = (if typeofString zipCode then address(''zipCode'' \<mapsto> zipCode)
                              else address)
               in database_create Address (u, address)) d)"

subsection \<open>The record integration dispatcher\<close>

text \<open>
  \<open>a === b\<close> where the left operand is a field of the sync record (a string or
  \<open>undefined\<close>): the two are the same primitive value.
\<close>

definition strictEq :: "val \<Rightarrow> val \<Rightarrow> bool" where
  "strictEq a b = (a = b \<and> a \<noteq> VNum NaN)"

text \<open>
  \<open>createOrUpdateRecord\<close> is one switch over the record type. Each of its cases is a
  definition of its own here, named after the case, and \<open>createOrUpdateRecord\<close> below
  is the switch. The fields of every object literal are evaluated in the order written.
\<close>

definition case_Item :: "env \<Rightarrow> syncData \<Rightarrow> db \<Rightarrow> error + db" where
  "case_Item e r =
     (let packSize = parseNumber e (fld r ''default_pack_size'') in
      bindM (getObject e ItemCategory (fld r ''category_ID'') ''id'') (\<lambda>category.
      bindM (getObject e ItemDepartment (fld r ''department_ID'') ''id'') (\<lambda>department.
      bindM (database_update Item (fld r ''ID'',
        [''category'' \<mapsto> category,
         ''code'' \<mapsto> fld r ''code'',
         ''defaultPackSize'' \<mapsto> VNum (Fin 1),
         ''defaultPrice'' \<mapsto> (if truthy packSize
            then js_div e (parseNumber e (fld r ''buy_price'')) packSize else VNum (Fin 0)),
         ''department'' \<mapsto> department,
         ''description'' \<mapsto> fld r ''description'',
         ''name'' \<mapsto> fld r ''item_name''])) (\<lambda>x. doneM))))"

definition case_ItemCategory :: "env \<Rightarrow> syncData \<Rightarrow> db \<Rightarrow> error + db" where
  "case_ItemCategory e r =
     bindM (database_update ItemCategory (fld r ''ID'',
       [''name'' \<mapsto> fld r ''Description''])) (\<lambda>x. doneM)"

definition case_ItemDepartment :: "env \<Rightarrow> syncData \<Rightarrow> db \<Rightarrow> error + db" where
  "case_ItemDepartment e r =
     bindM (database_update ItemDepartment (fld r ''ID'',
       [''name'' \<mapsto> fld r ''department''])) (\<lambda>x. doneM)"

definition case_ItemBatch :: "env \<Rightarrow> syncData \<Rightarrow> db \<Rightarrow> error + db" where
  "case_ItemBatch e r =
     bindM (getObject e Item (fld r ''item_ID'') ''id'') (\<lambda>item.
     let packSize = parseNumber e (fld r ''pack_size'') in
     bindM (getObject e Name (fld r ''name_ID'') ''id'') (\<lambda>supplier.
     bindM (database_update ItemBatch (fld r ''ID'',
       [''item'' \<mapsto> item,
        ''packSize'' \<mapsto> VNum (Fin 1),
        ''numberOfPacks'' \<mapsto> js_mul e (parseNumber e (fld r ''quantity'')) packSize,
        ''expiryDate'' \<mapsto> parseDate (fld r ''expiry_date'') VUndef,
        ''batch'' \<mapsto> fld r ''batch'',
        ''costPrice'' \<mapsto> (if truthy packSize
           then js_div e (parseNumber e (fld r ''sell_price'')) packSize else VNum (Fin 0)),
        ''sellPrice'' \<mapsto> (if truthy packSize
           then js_div e (parseNumber e (fld r ''sell_price'')) packSize else VNum (Fin 0)),
        ''supplier'' \<mapsto> supplier])) (\<lambda>itemBatch.
     thenM (addDependent item ''batches'' itemBatch)
       (database_save Item item))))"

definition case_ItemStoreJoin :: "env \<Rightarrow> syncData \<Rightarrow> db \<Rightarrow> error + db" where
  "case_ItemStoreJoin e r =
     (let joinsThisStore = strictEq (fld r ''store_ID'') (thisStoreId e) in
      bindM (database_update ItemStoreJoin (fld r ''ID'',
        [''itemId'' \<mapsto> fld r ''item_ID'',
         ''joinsThisStore'' \<mapsto> VBool joinsThisStore])) (\<lambda>x.
      if joinsThisStore
      then bindM (getObject e Item (fld r ''item_ID'') ''id'') (\<lambda>item.
           thenM (setField item ''isVisible'' (js_not (parseBoolean (fld r ''inactive''))))
             (database_save Item item))
      else doneM))"

definition case_MasterListNameJoin :: "env \<Rightarrow> syncData \<Rightarrow> db \<Rightarrow> error + db" where
  "case_MasterListNameJoin e r =
     bindM (getObject e Name (fld r ''name_ID'') ''id'') (\<lambda>name.
     bindM (getObject e MasterList (fld r ''list_master_ID'') ''id'') (\<lambda>masterList.
     thenM (setField name ''masterList'' masterList)
     (thenM (database_save Name name)
     (bindM (database_update MasterListNameJoin (fld r ''ID'',
       [''name'' \<mapsto> name,
        ''masterList'' \<mapsto> masterList])) (\<lambda>x. doneM)))))"

definition case_MasterList :: "env \<Rightarrow> syncData \<Rightarrow> db \<Rightarrow> error + db" where
  "case_MasterList e r =
     bindM (database_update MasterList (fld r ''ID'',
       [''name'' \<mapsto> fld r ''description'',
        ''note'' \<mapsto> fld r ''note''])) (\<lambda>x. doneM)"

definition case_MasterListItem :: "env \<Rightarrow> syncData \<Rightarrow> db \<Rightarrow> error + db" where
  "case_MasterListItem e r =
     bindM (getObject e MasterList (fld r ''item_master_ID'') ''id'') (\<lambda>masterList.
     bindM (getObject e Item (fld r ''item_ID'') ''id'') (\<lambda>item.
     bindM (database_update MasterListItem (fld r ''ID'',
       [''item'' \<mapsto> item,
        ''imprestQuantity'' \<mapsto> parseNumber e (fld r ''imprest_quan''),
        ''masterList'' \<mapsto> masterList])) (\<lambda>masterListItem.
     addDependent masterList ''items'' masterListItem)))"

definition case_Name :: "env \<Rightarrow> syncData \<Rightarrow> db \<Rightarrow> error + db" where
  "case_Name e r =
     bindM (getOrCreateAddress e (fld r ''bill_address1'') (fld r ''bill_address2'')
              (fld r ''bill_address3'') (fld r ''bill_address4'')
              (fld r ''bill_postal_zip_code'')) (\<lambda>billingAddress.
     bindM (database_update Name (fld r ''ID'',
       [''name'' \<mapsto> fld r ''name'',
        ''code'' \<mapsto> fld r ''code'',
        ''phoneNumber'' \<mapsto> fld r ''phone'',
        ''billingAddress'' \<mapsto> billingAddress,
        ''emailAddress'' \<mapsto> fld r ''email'',
        ''type'' \<mapsto> NAME_TYPES e (fld r ''type''),
        ''isCustomer'' \<mapsto> parseBoolean (fld r ''customer''),
        ''isSupplier'' \<mapsto> parseBoolean (fld r ''supplier''),
        ''isManufacturer'' \<mapsto> parseBoolean (fld r ''manufacturer''),
        ''supplyingStoreId'' \<mapsto> fld r ''supplying_store_id''])) (\<lambda>x. doneM))"

definition case_NameStoreJoin :: "env \<Rightarrow> syncData \<Rightarrow> db \<Rightarrow> error + db" where
  "case_NameStoreJoin e r =
     (let joinsThisStore = strictEq (fld r ''store_ID'') (thisStoreId e) in
      bindM (database_update NameStoreJoin (fld r ''ID'',
        [''nameId'' \<mapsto> fld r ''name_ID'',
         ''joinsThisStore'' \<mapsto> VBool joinsThisStore])) (\<lambda>x.
      if joinsThisStore
      then bindM (getObject e Name (fld r ''name_ID'') ''id'') (\<lambda>name.
           thenM (setField name ''isVisible'' (js_not (parseBoolean (fld r ''inactive''))))
             (database_save Name name))
      else doneM))"

definition case_NumberSequence :: "env \<Rightarrow> syncData \<Rightarrow> db \<Rightarrow> error + db" where
  "case_NumberSequence e r =
     (let thisStoreId = thisStoreId e;
          sequenceKey = SEQUENCE_KEYS e (fld r ''name'') thisStoreId in
      if \<not> truthy sequenceKey then doneM
      else bindM (database_update NumberSequence (fld r ''ID'',
             [''sequenceKey'' \<mapsto> sequenceKey,
              ''highestNumberUsed'' \<mapsto> parseNumber e (fld r ''value'')])) (\<lambda>x. doneM))"

definition case_NumberToReuse :: "env \<Rightarrow> syncData \<Rightarrow> db \<Rightarrow> error + db" where
  "case_NumberToReuse e r =
     (let thisStoreId = thisStoreId e;
          sequenceKey = SEQUENCE_KEYS e (fld r ''name'') thisStoreId in
      if \<not> truthy sequenceKey then doneM
      else bindM (getObject e NumberSequence sequenceKey ''sequenceKey'') (\<lambda>numberSequence.
           bindM (database_update NumberToReuse (fld r ''ID'',
             [''numberSequence'' \<mapsto> numberSequence,
              ''number'' \<mapsto> parseNumber e (fld r ''number_to_use'')])) (\<lambda>numberToReuse.
           addDependent numberSequence ''numbersToReuse'' numberToReuse)))"

definition case_Requisition :: "env \<Rightarrow> syncData \<Rightarrow> db \<Rightarrow> error + db" where
  "case_Requisition e r =
     bindM (getObject e User (fld r ''user_ID'') ''id'') (\<lambda>user.
     bindM (database_update Requisition (fld r ''ID'',
       [''status'' \<mapsto> STATUSES e (fld r ''status''),
        ''entryDate'' \<mapsto> parseDate (fld r ''date_entered'') VUndef,
        ''daysToSupply'' \<mapsto> parseNumber e (fld r ''daysToSupply''),
        ''serialNumber'' \<mapsto> fld r ''serial_number'',
        ''user'' \<mapsto> user,
        ''type'' \<mapsto> REQUISITION_TYPES e (fld r ''type'')])) (\<lambda>x. doneM))"

definition case_RequisitionItem :: "env \<Rightarrow> syncData \<Rightarrow> db \<Rightarrow> error + db" where
  "case_RequisitionItem e r =
     bindM (getObject e Requisition (fld r ''requisition_ID'') ''id'') (\<lambda>requisition.
     bindM (getField requisition ''daysToSupply'') (\<lambda>daysToSupply.
     let dailyUsage = (if truthy daysToSupply
           then js_div e (parseNumber e (fld r ''Cust_stock_order'')) daysToSupply
           else VNum (Fin 0)) in
     bindM (getObject e Item (fld r ''item_ID'') ''id'') (\<lambda>item.
     bindM (database_update RequisitionItem (fld r ''ID'',
       [''requisition'' \<mapsto> requisition,
        ''item'' \<mapsto> item,
        ''stockOnHand'' \<mapsto> parseNumber e (fld r ''stock_on_hand''),
        ''dailyUsage'' \<mapsto> dailyUsage,
        ''imprestQuantity'' \<mapsto> parseNumber e (fld r ''imprest_or_prev_quantity''),
        ''requiredQuantity'' \<mapsto> parseNumber e (fld r ''actualQuan''),
        ''comment'' \<mapsto> fld r ''comment'',
        ''sortIndex'' \<mapsto> parseNumber e (fld r ''line_number'')])) (\<lambda>requisitionItem.
     thenM (addDependent requisition ''items'' requisitionItem)
       (database_save Requisition requisition)))))"

definition case_Stocktake :: "env \<Rightarrow> syncData \<Rightarrow> db \<Rightarrow> error + db" where
  "case_Stocktake e r =
     bindM (getObject e User (fld r ''created_by_ID'') ''id'') (\<lambda>createdBy.
     bindM (getObject e User (fld r ''finalised_by_ID'') ''id'') (\<lambda>finalisedBy.
     bindM (getObject e Transaction (fld r ''invad_additions_ID'') ''id'') (\<lambda>additions.
     bindM (getObject e Transaction (fld r ''invad_reductions_ID'') ''id'') (\<lambda>reductions.
     bindM (database_update Stocktake (fld r ''ID'',
       [''name'' \<mapsto> fld r ''Description'',
        ''createdDate'' \<mapsto> parseDate (fld r ''stock_take_created_date'') VUndef,
        ''stocktakeDate'' \<mapsto> parseDate (fld r ''stock_take_date'') (fld r ''stock_take_time''),
        ''status'' \<mapsto> STATUSES e (fld r ''status''),
        ''createdBy'' \<mapsto> createdBy,
        ''finalisedBy'' \<mapsto> finalisedBy,
        ''comment'' \<mapsto> fld r ''comment'',
        ''serialNumber'' \<mapsto> fld r ''serial_number'',
        ''additions'' \<mapsto> additions,
        ''reductions'' \<mapsto> reductions])) (\<lambda>x. doneM)))))"

definition case_StocktakeBatch :: "env \<Rightarrow> syncData \<Rightarrow> db \<Rightarrow> error + db" where
  "case_StocktakeBatch e r =
     bindM (getObject e Stocktake (fld r ''stock_take_ID'') ''id'') (\<lambda>stocktake.
     let packSize = parseNumber e (fld r ''snapshot_packsize'');
         numPacks = js_mul e (parseNumber e (fld r ''snapshot_qty'')) packSize in
     bindM (getObject e ItemBatch (fld r ''item_line_ID'') ''id'') (\<lambda>itemBatch.
     bindM (database_update StocktakeBatch (fld r ''ID'',
       [''stocktake'' \<mapsto> stocktake,
        ''itemBatch'' \<mapsto> itemBatch,
        ''snapshotNumberOfPacks'' \<mapsto> numPacks,
        ''packSize'' \<mapsto> VNum (Fin 1),
        ''expiry'' \<mapsto> parseDate (fld r ''expiry'') VUndef,
        ''batch'' \<mapsto> fld r ''Batch'',
        ''costPrice'' \<mapsto> (if truthy packSize
           then js_div e (parseNumber e (fld r ''cost_price'')) packSize else VNum (Fin 0)),
        ''sellPrice'' \<mapsto> (if truthy packSize
           then js_div e (parseNumber e (fld r ''sell_price'')) packSize else VNum (Fin 0)),
        ''countedNumberOfPacks'' \<mapsto> numPacks,
        ''sortIndex'' \<mapsto> parseNumber e (fld r ''line_number'')])) (\<lambda>stocktakeBatch.
     thenM (addDependent stocktake ''batches'' stocktakeBatch)
       (database_save Stocktake stocktake))))"

definition case_Transaction :: "env \<Rightarrow> syncData \<Rightarrow> db \<Rightarrow> error + db" where
  "case_Transaction e r =
     bindM (getObject e Name (fld r ''name_ID'') ''id'') (\<lambda>otherParty.
     bindM (database_update Transaction (fld r ''ID'',
       [''serialNumber'' \<mapsto> fld r ''invoice_num'',
        ''comment'' \<mapsto> fld r ''comment'',
        ''entryDate'' \<mapsto> parseDate (fld r ''entry_date'') VUndef,
        ''type'' \<mapsto> TRANSACTION_TYPES e (fld r ''type''),
        ''status'' \<mapsto> STATUSES e (fld r ''status''),
        ''confirmDate'' \<mapsto> parseDate (fld r ''confirm_date'') VUndef,
        ''theirRef'' \<mapsto> fld r ''their_ref''])) (\<lambda>transaction.
     thenM (setField transaction ''otherParty'' otherParty)
     (bindM (getObject e User (fld r ''user_ID'') ''id'') (\<lambda>enteredBy.
     thenM (setField transaction ''enteredBy'' enteredBy)
     (bindM (getObject e TransactionCategory (fld r ''category_ID'') ''id'') (\<lambda>category.
     thenM (setField transaction ''category'' category)
     (thenM (addDependent otherParty ''transactions'' transaction)
       (database_save Name otherParty))))))))"

definition case_TransactionCategory :: "env \<Rightarrow> syncData \<Rightarrow> db \<Rightarrow> error + db" where
  "case_TransactionCategory e r =
     bindM (database_update TransactionCategory (fld r ''ID'',
       [''name'' \<mapsto> fld r ''category'',
        ''code'' \<mapsto> fld r ''code'',
        ''type'' \<mapsto> TRANSACTION_TYPES e (fld r ''type'')])) (\<lambda>x. doneM)"

definition case_TransactionBatch :: "env \<Rightarrow> syncData \<Rightarrow> db \<Rightarrow> error + db" where
  "case_TransactionBatch e r =
     bindM (getObject e Transaction (fld r ''transaction_ID'') ''id'') (\<lambda>transaction.
     bindM (getObject e ItemBatch (fld r ''item_line_ID'') ''id'') (\<lambda>itemBatch.
     bindM (getObject e Item (fld r ''item_ID'') ''id'') (\<lambda>item.
     thenM (setField itemBatch ''item'' item)
     (thenM (addDependent item ''batches'' itemBatch)
     (let packSize = parseNumber e (fld r ''pack_size'') in
     bindM (database_update TransactionBatch (fld r ''ID'',
       [''itemId'' \<mapsto> fld r ''item_ID'',
        ''itemName'' \<mapsto> fld r ''item_name'',
        ''itemBatch'' \<mapsto> itemBatch,
        ''packSize'' \<mapsto> VNum (Fin 1),
        ''numberOfPacks'' \<mapsto> js_mul e (parseNumber e (fld r ''quantity'')) packSize,
        ''numberOfPacksSent'' \<mapsto> js_mul e (parseNumber e (fld r ''quantity'')) packSize,
        ''transaction'' \<mapsto> transaction,
        ''note'' \<mapsto> fld r ''note'',
        ''costPrice'' \<mapsto> (if truthy packSize
           then js_div e (parseNumber e (fld r ''cost_price'')) packSize else VNum (Fin 0)),
        ''sellPrice'' \<mapsto> (if truthy packSize
           then js_div e (parseNumber e (fld r ''sell_price'')) packSize else VNum (Fin 0)),
        ''sortIndex'' \<mapsto> parseNumber e (fld r ''line_number''),
        ''expiryDate'' \<mapsto> parseDate (fld r ''expiry_date'') VUndef,
        ''batch'' \<mapsto> fld r ''batch''])) (\<lambda>transactionBatch.
     thenM (addDependent transaction ''batches'' transactionBatch)
     (thenM (database_save Transaction transaction)
     (thenM (addDependent itemBatch ''transactionBatches'' transactionBatch)
       (database_save ItemBatch itemBatch)))))))))"

definition createOrUpdateRecord :: "env \<Rightarrow> etype \<Rightarrow> syncData \<Rightarrow> db \<Rightarrow> error + db" where
  "createOrUpdateRecord e recordType r =
     (if \<not> truthy (sanityCheckIncomingRecord recordType r) then doneM
      else case recordType of
        Item \<Rightarrow> case_Item e r
      | ItemCategory \<Rightarrow> case_ItemCategory e r
      | ItemDepartment \<Rightarrow> case_ItemDepartment e r
      | ItemBatch \<Rightarrow> case_ItemBatch e r
      | ItemStoreJoin \<Rightarrow> case_ItemStoreJoin e r
      | MasterListNameJoin \<Rightarrow> case_MasterListNameJoin e r
      | MasterList \<Rightarrow> case_MasterList e r
      | MasterListItem \<Rightarrow> case_MasterListItem e r
      | Name \<Rightarrow> case_Name e r
      | NameStoreJoin \<Rightarrow> case_NameStoreJoin e r
      | NumberSequence \<Rightarrow> case_NumberSequence e r
      | NumberToReuse \<Rightarrow> case_NumberToReuse e r
      | Requisition \<Rightarrow> case_Requisition e r
      | RequisitionItem \<Rightarrow> case_RequisitionItem e r
      | Stocktake \<Rightarrow> case_Stocktake e r
      | StocktakeBatch \<Rightarrow> case_StocktakeBatch e r
      | Transaction \<Rightarrow> case_Transaction e r
      | TransactionCategory \<Rightarrow> case_TransactionCategory e r
      | TransactionBatch \<Rightarrow> case_TransactionBatch e r
      | _ \<Rightarrow> doneM)"

subsection \<open>The deletion handler\<close>

definition deleteRecord :: "env \<Rightarrow> etype \<Rightarrow> val \<Rightarrow> db \<Rightarrow> error + db" where
  "deleteRecord e recordType recordId =
     (if recordType \<in> {Item, ItemBatch, ItemCategory, ItemDepartment, ItemStoreJoin,
          MasterList, MasterListItem, MasterListNameJoin, Name, NameStoreJoin,
          NumberSequence, NumberToReuse, Requisition, RequisitionItem, Stocktake,
          StocktakeBatch, Transaction, TransactionBatch, TransactionCategory}
      then bindM (getObject e recordType recordId ''id'') (\<lambda>recordToDelete.
             database_delete recordType recordToDelete)
      else doneM)"

subsection \<open>Notions the properties are stated with\<close>

text \<open>Equality of strings up to the case of the ASCII letters.\<close>

definition lowerChar :: "char \<Rightarrow> char" where
  "lowerChar c =
     (case map_of (zip ''ABCDEFGHIJKLMNOPQRSTUVWXYZ'' ''abcdefghijklmnopqrstuvwxyz'') c of
        None \<Rightarrow> c | Some l \<Rightarrow> l)"

definition equalsIgnoreCase :: "string \<Rightarrow> string \<Rightarrow> bool" where
  "equalsIgnoreCase a b = (map lowerChar a = map lowerChar b)"

text \<open>A field of a sync record is present, and it is present and not the empty string.\<close>

definition isString :: "syncData \<Rightarrow> string \<Rightarrow> bool" where
  "isString r f = (case r f of None \<Rightarrow> False | Some s \<Rightarrow> True)"

definition nonEmpty :: "syncData \<Rightarrow> string \<Rightarrow> bool" where
  "nonEmpty r f = (case r f of None \<Rightarrow> False | Some s \<Rightarrow> s \<noteq> [])"

text \<open>
  The fields, besides \<open>ID\<close>, that the sanity check tests for truthiness, by record type
  (the three types it tests with \<open>typeof\<close> are not listed).
\<close>

definition requiredFields :: "etype \<Rightarrow> string list" where
  "requiredFields T = (case T of
      Item \<Rightarrow> [''code'', ''item_name'', ''default_pack_size'']
    | ItemBatch \<Rightarrow> [''item_ID'', ''pack_size'', ''quantity'', ''batch'', ''expiry_date'',
        ''cost_price'', ''sell_price'']
    | ItemStoreJoin \<Rightarrow> [''item_ID'', ''store_ID'']
    | MasterListNameJoin \<Rightarrow> [''name_ID'', ''list_master_ID'']
    | MasterListItem \<Rightarrow> [''item_ID'']
    | Name \<Rightarrow> [''name'', ''code'', ''type'', ''customer'', ''supplier'', ''manufacturer'']
    | NameStoreJoin \<Rightarrow> [''name_ID'', ''store_ID'']
    | NumberSequence \<Rightarrow> [''name'', ''value'']
    | NumberToReuse \<Rightarrow> [''name'', ''number_to_use'']
    | Requisition \<Rightarrow> [''status'', ''date_entered'', ''type'', ''daysToSupply'',
        ''serial_number'']
    | RequisitionItem \<Rightarrow> [''requisition_ID'', ''item_ID'', ''stock_on_hand'',
        ''Cust_stock_order'']
    | Stocktake \<Rightarrow> [''Description'', ''stock_take_created_date'', ''status'',
        ''serial_number'']
    | StocktakeBatch \<Rightarrow> [''stock_take_ID'', ''item_line_ID'', ''snapshot_qty'',
        ''snapshot_packsize'', ''expiry'', ''Batch'', ''cost_price'', ''sell_price'']
    | Transaction \<Rightarrow> [''invoice_num'', ''name_ID'', ''entry_date'', ''type'', ''status'']
    | TransactionCategory \<Rightarrow> [''category'', ''code'', ''type'']
    | TransactionBatch \<Rightarrow> [''item_ID'', ''item_name'', ''item_line_ID'', ''batch'',
        ''expiry_date'', ''pack_size'', ''quantity'', ''transaction_ID'', ''cost_price'',
        ''sell_price'']
    | _ \<Rightarrow> [])"

text \<open>
  One choice of the collaborators, for the concrete instances below: the local store is
  \<open>S1\<close>, only its own sequence \<open>mine\<close> translates to a key, \<open>parseFloat\<close> reads a
  few numerals, rounding leaves a number as it is (the instances compute with small
  integers, which are doubles), the other tables translate every code to itself.
\<close>

definition demoEnv :: env where
  "demoEnv = \<lparr>
     thisStoreId = VStr ''S1'',
     parseFloat = (\<lambda>v. if v = VStr ''0'' then Fin 0 else if v = VStr ''2'' then Fin 2
                        else if v = VStr ''5'' then Fin 5 else NaN),
     roundD = Fin,
     clock = 0,
     uuidOf = (\<lambda>n. VStr (replicate (Suc n) CHR ''u'')),
     NAME_TYPES = (\<lambda>v. v),
     REQUISITION_TYPES = (\<lambda>v. v),
     SEQUENCE_KEYS = (\<lambda>name store. if name = VStr ''mine'' then VStr ''key'' else VNull),
     STATUSES = (\<lambda>v. v),
     TRANSACTION_TYPES = (\<lambda>v. v)\<rparr>"

text \<open>
  What \<open>getObject\<close> returns for a key: a reference to the object of that key, or
  \<open>null\<close> for a key that is falsy.
\<close>

definition refOf :: "etype \<Rightarrow> val \<Rightarrow> val" where
  "refOf T k = (if truthy k then VRef T k else VNull)"

text \<open>
  The types for which \<open>generatePlaceholder\<close> has a template whose identifier is the
  primary key (NumberSequence, whose placeholder gets a generated identifier, is apart),
  and the fields of that template.
\<close>

definition hasTemplate :: "etype \<Rightarrow> bool" where
  "hasTemplate T = (T \<in> {Address, Item, ItemCategory, ItemDepartment, ItemBatch, MasterList,
      Name, Stocktake, Transaction, TransactionCategory, User})"

definition placeholderFields :: "env \<Rightarrow> etype \<Rightarrow> val \<Rightarrow> fields" where
  "placeholderFields e T k =
     (case generatePlaceholder e T k emptyDB of Inr (ob, d) \<Rightarrow> snd ob | Inl x \<Rightarrow> Map.empty)"

text \<open>A table after a lookup of key \<open>k\<close> that adds the row \<open>(k, fs)\<close> when it is missing.\<close>

definition ensureRow :: "val \<Rightarrow> fields \<Rightarrow> table \<Rightarrow> table" where
  "ensureRow k fs t = (if \<not> truthy k \<or> k \<in> fst ` set t then t else AList.update k fs t)"

text \<open>
  The address fields a call supplies (those that are strings), and the rows of the
  Address table that agree with every one of them.
\<close>

definition suppliedAddressFields ::
  "val \<Rightarrow> val \<Rightarrow> val \<Rightarrow> val \<Rightarrow> val \<Rightarrow> (string \<times> val) list" where
  "suppliedAddressFields line1 line2 line3 line4 zipCode =
     filter (\<lambda>p. typeofString (snd p))
       [(''line1'', line1), (''line2'', line2), (''line3'', line3), (''line4'', line4),
        (''zipCode'', zipCode)]"

definition matchesSupplied :: "(string \<times> val) list \<Rightarrow> val \<times> fields \<Rightarrow> bool" where
  "matchesSupplied q = (\<lambda>row. list_all (\<lambda>p. snd row (fst p) = Some (snd p)) q)"

text \<open>Sync records for the concrete instances; \<open>p\<close> is the pack size on the wire.\<close>

definition demoItem :: "string \<Rightarrow> syncData" where
  "demoItem p = [''ID'' \<mapsto> ''I1'', ''code'' \<mapsto> ''amox'', ''item_name'' \<mapsto> ''Amoxicillin'',
     ''default_pack_size'' \<mapsto> p, ''buy_price'' \<mapsto> ''5'']"

definition demoItemBatch :: "string \<Rightarrow> syncData" where
  "demoItemBatch p = [''ID'' \<mapsto> ''B1'', ''item_ID'' \<mapsto> ''I1'', ''pack_size'' \<mapsto> p,
     ''quantity'' \<mapsto> ''5'', ''batch'' \<mapsto> ''b'', ''expiry_date'' \<mapsto> ''2017-01-01'',
     ''cost_price'' \<mapsto> ''2'', ''sell_price'' \<mapsto> ''2'']"

definition demoStocktakeBatch :: "string \<Rightarrow> syncData" where
  "demoStocktakeBatch p = [''ID'' \<mapsto> ''SB1'', ''stock_take_ID'' \<mapsto> ''S1'',
     ''item_line_ID'' \<mapsto> ''B1'', ''snapshot_qty'' \<mapsto> ''5'', ''snapshot_packsize'' \<mapsto> p,
     ''expiry'' \<mapsto> ''2017-01-01'', ''Batch'' \<mapsto> ''b'', ''cost_price'' \<mapsto> ''2'',
     ''sell_price'' \<mapsto> ''2'']"

definition demoTransactionBatch :: "string \<Rightarrow> syncData" where
  "demoTransactionBatch p = [''ID'' \<mapsto> ''TB1'', ''item_ID'' \<mapsto> ''I1'',
     ''item_name'' \<mapsto> ''Amoxicillin'', ''item_line_ID'' \<mapsto> ''B1'', ''batch'' \<mapsto> ''b'',
     ''expiry_date'' \<mapsto> ''2017-01-01'', ''pack_size'' \<mapsto> p, ''quantity'' \<mapsto> ''5'',
     ''transaction_ID'' \<mapsto> ''T1'', ''cost_price'' \<mapsto> ''2'', ''sell_price'' \<mapsto> ''2'']"

definition demoRequisitionItem :: syncData where
  "demoRequisitionItem = [''ID'' \<mapsto> ''RI1'', ''requisition_ID'' \<mapsto> ''R1'',
     ''item_ID'' \<mapsto> ''I1'', ''stock_on_hand'' \<mapsto> ''5'', ''Cust_stock_order'' \<mapsto> ''2'']"

text \<open>A database that holds the Requisition \<open>R1\<close>, with zero days to supply.\<close>

definition demoRequisitionDB :: db where
  "demoRequisitionDB = emptyDB\<lparr>tables := (tables emptyDB)
     (Requisition := [(VStr ''R1'', [''daysToSupply'' \<mapsto> VNum (Fin 0)])])\<rparr>"

section \<open>Properties\<close>

subsection \<open>Truthiness of the record's fields\<close>

lemma truthy_js_and: "truthy (js_and a b) \<longleftrightarrow> truthy a \<and> truthy b"
  by (simp add: js_and_def)

lemma truthy_js_ands: "truthy (js_ands a bs) \<longleftrightarrow> truthy a \<and> list_all truthy bs"
  by (induction bs arbitrary: a) (auto simp: js_and_def)

lemma truthy_fld_nonEmpty: "truthy (fld r f) = nonEmpty r f"
  by (simp add: fld_def nonEmpty_def split: option.splits)

lemma typeofString_fld_isString: "typeofString (fld r f) = isString r f"
  by (simp add: fld_def isString_def split: option.splits)

lemma lengthLt1_fld_nonEmpty: "nonEmpty r f \<Longrightarrow> \<not> lengthLt1 (fld r f)"
  by (auto simp add: fld_def nonEmpty_def split: option.splits)

subsection \<open>parseBoolean\<close>

text \<open>
  C7, as the code has it. For every string, \<open>parseBoolean\<close> returns \<open>true\<close> exactly
  when the string is one of the three spellings \<open>true\<close>, \<open>True\<close> and \<open>TRUE\<close> of
  its list, and \<open>false\<close> for every other string that is not empty.
\<close>

theorem parseBoolean_three_spellings:
  "(parseBoolean (VStr s) = VBool True \<longleftrightarrow> s \<in> {''true'', ''True'', ''TRUE''})
   \<and> (s \<noteq> [] \<longrightarrow> parseBoolean (VStr s) = VBool (s \<in> {''true'', ''True'', ''TRUE''}))"
  by (auto simp add: parseBoolean_def js_and_def trueStrings_def)

theorem parseBoolean_three_spellings_witness:
  "parseBoolean (VStr ''true'') = VBool True \<and> parseBoolean (VStr ''True'') = VBool True
   \<and> parseBoolean (VStr ''TRUE'') = VBool True
   \<and> ''yes'' \<noteq> [] \<and> parseBoolean (VStr ''yes'') = VBool False
   \<and> ''false'' \<noteq> [] \<and> parseBoolean (VStr ''false'') = VBool False"
  using parseBoolean_three_spellings [of "''true''"]
    parseBoolean_three_spellings [of "''True''"]
    parseBoolean_three_spellings [of "''TRUE''"]
    parseBoolean_three_spellings [of "''yes''"]
    parseBoolean_three_spellings [of "''false''"]
  by simp

text \<open>
  C7, as the claim states it, fails: \<open>tRUE\<close> equals \<open>true\<close> up to case, and
  \<open>parseBoolean\<close> returns \<open>false\<close> for it.
\<close>

theorem parseBoolean_not_case_insensitive:
  "equalsIgnoreCase ''tRUE'' ''true'' \<and> parseBoolean (VStr ''tRUE'') = VBool False"
  by (simp add: equalsIgnoreCase_def lowerChar_def parseBoolean_def js_and_def trueStrings_def)

subsection \<open>The sanity check\<close>

text \<open>
  C9. For ItemCategory, ItemDepartment and MasterList the sanity check accepts a record
  exactly when its ID is non-empty and the descriptive field is a string, the empty string
  included. For each of the sixteen other supported types it accepts a record exactly when
  the ID and every required field are non-empty strings.
\<close>

theorem sanityCheck_empty_string_asymmetry:
  "(truthy (sanityCheckIncomingRecord ItemCategory r) \<longleftrightarrow>
      nonEmpty r ''ID'' \<and> isString r ''Description'')
   \<and> (truthy (sanityCheckIncomingRecord ItemDepartment r) \<longleftrightarrow>
      nonEmpty r ''ID'' \<and> isString r ''department'')
   \<and> (truthy (sanityCheckIncomingRecord MasterList r) \<longleftrightarrow>
      nonEmpty r ''ID'' \<and> isString r ''description'')
   \<and> (\<forall>T \<in> {Item, ItemBatch, ItemStoreJoin, MasterListNameJoin, MasterListItem, Name,
         NameStoreJoin, NumberSequence, NumberToReuse, Requisition, RequisitionItem,
         Stocktake, StocktakeBatch, Transaction, TransactionCategory, TransactionBatch}.
        truthy (sanityCheckIncomingRecord T r) \<longleftrightarrow>
          nonEmpty r ''ID'' \<and> list_all (nonEmpty r) (requiredFields T))"
  by (auto simp add: sanityCheckIncomingRecord_def truthy_js_ands truthy_fld_nonEmpty
        typeofString_fld_isString lengthLt1_fld_nonEmpty requiredFields_def truthy_js_and)

theorem sanityCheck_empty_string_asymmetry_witness:
  "truthy (sanityCheckIncomingRecord ItemCategory
          [''ID'' \<mapsto> ''c1'', ''Description'' \<mapsto> []])
   \<and> \<not> truthy (sanityCheckIncomingRecord Stocktake
          [''ID'' \<mapsto> ''s1'', ''Description'' \<mapsto> [],
           ''stock_take_created_date'' \<mapsto> ''2016-01-01'',
           ''status'' \<mapsto> ''cn'', ''serial_number'' \<mapsto> ''1''])
   \<and> truthy (sanityCheckIncomingRecord Stocktake
          [''ID'' \<mapsto> ''s1'', ''Description'' \<mapsto> ''d'',
           ''stock_take_created_date'' \<mapsto> ''2016-01-01'',
           ''status'' \<mapsto> ''cn'', ''serial_number'' \<mapsto> ''1''])"
  using sanityCheck_empty_string_asymmetry
          [of "[''ID'' \<mapsto> ''c1'', ''Description'' \<mapsto> []]"]
        sanityCheck_empty_string_asymmetry
          [of "[''ID'' \<mapsto> ''s1'', ''Description'' \<mapsto> [],
                ''stock_take_created_date'' \<mapsto> ''2016-01-01'',
                ''status'' \<mapsto> ''cn'', ''serial_number'' \<mapsto> ''1'']"]
        sanityCheck_empty_string_asymmetry
          [of "[''ID'' \<mapsto> ''s1'', ''Description'' \<mapsto> ''d'',
                ''stock_take_created_date'' \<mapsto> ''2016-01-01'',
                ''status'' \<mapsto> ''cn'', ''serial_number'' \<mapsto> ''1'']"]
  by (simp add: nonEmpty_def isString_def requiredFields_def)

subsection \<open>Placeholders\<close>

text \<open>
  C3 fails on the code. \<open>generatePlaceholder\<close> has no template for Requisition, the
  type the RequisitionItem case resolves: it throws for every key, and so does the
  integration of a well-formed RequisitionItem record whose Requisition is not in the
  database yet.
\<close>

theorem generatePlaceholder_Requisition_throws:
  "generatePlaceholder e Requisition k d = Inl UnsupportedObjectType
   \<and> truthy (sanityCheckIncomingRecord RequisitionItem
        [''ID'' \<mapsto> ''RI1'', ''requisition_ID'' \<mapsto> ''R1'', ''item_ID'' \<mapsto> ''I1'',
         ''stock_on_hand'' \<mapsto> ''5'', ''Cust_stock_order'' \<mapsto> ''10''])
   \<and> createOrUpdateRecord e RequisitionItem
        [''ID'' \<mapsto> ''RI1'', ''requisition_ID'' \<mapsto> ''R1'', ''item_ID'' \<mapsto> ''I1'',
         ''stock_on_hand'' \<mapsto> ''5'', ''Cust_stock_order'' \<mapsto> ''10''] emptyDB
       = Inl UnsupportedObjectType"
  by (simp add: createOrUpdateRecord_def sanityCheckIncomingRecord_def fld_def js_and_def
       case_RequisitionItem_def bindM_def getObject_def filtered_def database_objects_def
       emptyDB_def generatePlaceholder_def)

theorem generatePlaceholder_Requisition_throws_witness:
  "generatePlaceholder demoEnv Requisition (VStr ''R1'') emptyDB = Inl UnsupportedObjectType
   \<and> createOrUpdateRecord demoEnv RequisitionItem
        [''ID'' \<mapsto> ''RI1'', ''requisition_ID'' \<mapsto> ''R1'', ''item_ID'' \<mapsto> ''I1'',
         ''stock_on_hand'' \<mapsto> ''5'', ''Cust_stock_order'' \<mapsto> ''10''] emptyDB
       = Inl UnsupportedObjectType"
  using generatePlaceholder_Requisition_throws [of demoEnv "VStr ''R1''" emptyDB]
  by simp

subsection \<open>Sequences of other stores\<close>

text \<open>
  C6. When the sequence name of a NumberSequence or NumberToReuse record translates to
  \<open>null\<close> under the local store's identifier, \<open>createOrUpdateRecord\<close> returns
  without an error and leaves the database as it was.
\<close>

theorem foreign_sequence_is_skipped:
  "SEQUENCE_KEYS e (fld r ''name'') (thisStoreId e) = VNull \<Longrightarrow>
     createOrUpdateRecord e NumberSequence r d = Inr d
     \<and> createOrUpdateRecord e NumberToReuse r d = Inr d"
  by (simp add: createOrUpdateRecord_def case_NumberSequence_def case_NumberToReuse_def
       doneM_def)

theorem foreign_sequence_is_skipped_witness:
  "SEQUENCE_KEYS demoEnv (fld [''ID'' \<mapsto> ''n1'', ''name'' \<mapsto> ''theirs'', ''value'' \<mapsto> ''5'',
       ''number_to_use'' \<mapsto> ''7''] ''name'') (thisStoreId demoEnv) = VNull
   \<and> truthy (sanityCheckIncomingRecord NumberSequence
         [''ID'' \<mapsto> ''n1'', ''name'' \<mapsto> ''theirs'', ''value'' \<mapsto> ''5'',
          ''number_to_use'' \<mapsto> ''7''])
   \<and> truthy (sanityCheckIncomingRecord NumberToReuse
         [''ID'' \<mapsto> ''n1'', ''name'' \<mapsto> ''theirs'', ''value'' \<mapsto> ''5'',
          ''number_to_use'' \<mapsto> ''7''])
   \<and> createOrUpdateRecord demoEnv NumberSequence
         [''ID'' \<mapsto> ''n1'', ''name'' \<mapsto> ''theirs'', ''value'' \<mapsto> ''5'',
          ''number_to_use'' \<mapsto> ''7''] emptyDB = Inr emptyDB
   \<and> createOrUpdateRecord demoEnv NumberToReuse
         [''ID'' \<mapsto> ''n1'', ''name'' \<mapsto> ''theirs'', ''value'' \<mapsto> ''5'',
          ''number_to_use'' \<mapsto> ''7''] emptyDB = Inr emptyDB"
proof -
  have k: "SEQUENCE_KEYS demoEnv
      (fld [''ID'' \<mapsto> ''n1'', ''name'' \<mapsto> ''theirs'', ''value'' \<mapsto> ''5'',
            ''number_to_use'' \<mapsto> ''7''] ''name'')
      (thisStoreId demoEnv) = VNull"
    by (simp add: demoEnv_def fld_def)
  have s: "truthy (sanityCheckIncomingRecord NumberSequence
         [''ID'' \<mapsto> ''n1'', ''name'' \<mapsto> ''theirs'', ''value'' \<mapsto> ''5'',
          ''number_to_use'' \<mapsto> ''7''])"
    "truthy (sanityCheckIncomingRecord NumberToReuse
         [''ID'' \<mapsto> ''n1'', ''name'' \<mapsto> ''theirs'', ''value'' \<mapsto> ''5'',
          ''number_to_use'' \<mapsto> ''7''])"
    by (simp_all add: sanityCheckIncomingRecord_def fld_def js_and_def)
  from k s foreign_sequence_is_skipped [OF k, of emptyDB] show ?thesis
    by blast
qed

subsection \<open>The address deduplicator\<close>

text \<open>
  C10. Called with all five fields absent, \<open>getOrCreateAddress\<close> never returns
  \<open>null\<close>: when the database holds an Address it returns the first one and changes
  nothing, and only when it holds none it creates an Address that has nothing but a
  generated identifier.
\<close>

theorem getOrCreateAddress_no_fields:
  "getOrCreateAddress e VUndef VUndef VUndef VUndef VUndef d =
     (case tables d Address of
        row # rest \<Rightarrow> Inr (VRef Address (fst row), d)
      | [] \<Rightarrow> Inr (VRef Address (uuidOf e (uuidCount d)),
                d\<lparr>tables := (tables d)(Address := [(uuidOf e (uuidCount d), Map.empty)]),
                  uuidCount := Suc (uuidCount d)\<rparr>))"
  by (simp add: getOrCreateAddress_def database_objects_def bindM_def generateUUID_def
       database_create_def database_update_def split: list.splits)

subsection \<open>Tables and the reference resolver\<close>

lemmas run_defs = bindM_def thenM_def doneM_def unitM_def database_update_def database_save_def
  database_create_def Let_def

lemma lengthLt1_falsy: "lengthLt1 k \<Longrightarrow> \<not> truthy k"
  by (cases k) auto

lemma truthy_lengthLt1: "truthy k \<Longrightarrow> lengthLt1 k = False"
  by (cases k) auto

lemma list_case_filter:
  "(case filter P rows of [] \<Rightarrow> A | row # rest \<Rightarrow> B row) =
     (if \<exists>row \<in> set rows. P row then B (hd (filter P rows)) else A)"
  by (induction rows) auto

lemma hd_filter_key:
  "k \<in> fst ` set rows \<Longrightarrow> fst (hd (filter (\<lambda>row. fst row = k) rows)) = k"
  by (induction rows) auto

lemma ex_key: "(\<exists>row \<in> set rows. fst row = k) \<longleftrightarrow> k \<in> fst ` set rows"
  by auto

lemma key_of_map_of: "map_of t k = Some v \<Longrightarrow> k \<in> fst ` set t"
  by (metis domI dom_map_of_conv_image_fst)

lemma update_absent: "k \<notin> fst ` set t \<Longrightarrow> AList.update k v t = t @ [(k, v)]"
  by (induction t) auto

lemma update_map_entry: "AList.update k v (AList.map_entry k f t) = AList.update k v t"
  by (induction t) auto

lemma filter_update_new:
  "filter P t = [] \<Longrightarrow> P (u, v) \<Longrightarrow> filter P (AList.update u v t) = [(u, v)]"
  by (induction t) (auto split: if_splits)

lemma jmul_commute: "jmul e a b = jmul e b a"
  by (cases a; cases b) (auto simp: mult.commute)

lemma js_mul_num: "js_mul e (VNum a) (VNum b) = VNum (jmul e b a)"
  by (simp add: js_mul_def jmul_commute)

lemma parseNumber_nonEmpty:
  "nonEmpty r f \<Longrightarrow> parseNumber e (fld r f) = VNum (parseFloat e (fld r f))"
  by (simp add: parseNumber_def truthy_fld_nonEmpty lengthLt1_fld_nonEmpty)

lemma generatePlaceholder_template:
  "hasTemplate T \<Longrightarrow> generatePlaceholder e T k d = Inr ((k, placeholderFields e T k), d)"
  by (auto simp add: hasTemplate_def generatePlaceholder_def placeholderFields_def unitM_def
        Let_def)

lemma getObject_id_template:
  "hasTemplate T \<Longrightarrow> getObject e T k ''id'' d =
     Inr (refOf T k,
          d\<lparr>tables := (tables d)(T := ensureRow k (placeholderFields e T k) (tables d T))\<rparr>)"
  using lengthLt1_falsy [of k]
  by (auto simp add: getObject_def filtered_def database_objects_def list_case_filter
        hd_filter_key ex_key generatePlaceholder_template bindM_def database_create_def
        database_update_def refOf_def ensureRow_def)

lemma getObject_id_no_template:
  "T \<in> {ItemStoreJoin, MasterListItem, MasterListNameJoin, NameStoreJoin, NumberToReuse,
      Requisition, RequisitionItem, StocktakeBatch, TransactionBatch, OtherType} \<Longrightarrow>
   getObject e T k ''id'' d =
     (if \<not> truthy k then Inr (VNull, d)
      else if k \<in> fst ` set (tables d T) then Inr (VRef T k, d)
      else Inl UnsupportedObjectType)"
  using lengthLt1_falsy [of k]
  by (auto simp add: getObject_def filtered_def database_objects_def list_case_filter
        hd_filter_key ex_key generatePlaceholder_def bindM_def)

lemmas getObject_templates =
  getObject_id_template [of Item, simplified hasTemplate_def, simplified]
  getObject_id_template [of ItemBatch, simplified hasTemplate_def, simplified]
  getObject_id_template [of ItemCategory, simplified hasTemplate_def, simplified]
  getObject_id_template [of ItemDepartment, simplified hasTemplate_def, simplified]
  getObject_id_template [of MasterList, simplified hasTemplate_def, simplified]
  getObject_id_template [of Name, simplified hasTemplate_def, simplified]
  getObject_id_template [of Stocktake, simplified hasTemplate_def, simplified]
  getObject_id_template [of Transaction, simplified hasTemplate_def, simplified]
  getObject_id_template [of TransactionCategory, simplified hasTemplate_def, simplified]
  getObject_id_template [of User, simplified hasTemplate_def, simplified]

lemma keys_ensureRow:
  "fst ` set (ensureRow k fs t) = (if truthy k then insert k (fst ` set t) else fst ` set t)"
  by (auto simp add: ensureRow_def dom_update)

lemma ensureRow_present: "\<not> truthy k \<or> k \<in> fst ` set t \<Longrightarrow> ensureRow k fs t = t"
  by (auto simp add: ensureRow_def)

lemma addDependent_refOf:
  "addDependent (refOf T k) c x d =
     (if truthy k
      then Inr (d\<lparr>tables := (tables d)(T := AList.map_entry k (addTo c x) (tables d T))\<rparr>)
      else Inl TypeError)"
  by (simp add: refOf_def)

lemma setField_refOf:
  "setField (refOf T k) f v d =
     (if truthy k
      then Inr (d\<lparr>tables := (tables d)
                  (T := AList.map_entry k (\<lambda>fs. fs(f \<mapsto> v)) (tables d T))\<rparr>)
      else Inl TypeError)"
  by (simp add: refOf_def)

subsection \<open>What the sanity check guarantees\<close>

lemma sanity_Item:
  "truthy (sanityCheckIncomingRecord Item r) \<Longrightarrow>
     nonEmpty r ''ID'' \<and> nonEmpty r ''default_pack_size''"
  by (simp add: sanityCheckIncomingRecord_def truthy_js_ands truthy_js_and truthy_fld_nonEmpty
        split: if_splits)

lemma sanity_ItemBatch:
  "truthy (sanityCheckIncomingRecord ItemBatch r) \<Longrightarrow>
     nonEmpty r ''ID'' \<and> nonEmpty r ''item_ID'' \<and> nonEmpty r ''pack_size''
     \<and> nonEmpty r ''quantity''"
  by (simp add: sanityCheckIncomingRecord_def truthy_js_ands truthy_js_and truthy_fld_nonEmpty
        split: if_splits)

lemma sanity_StocktakeBatch:
  "truthy (sanityCheckIncomingRecord StocktakeBatch r) \<Longrightarrow>
     nonEmpty r ''ID'' \<and> nonEmpty r ''stock_take_ID'' \<and> nonEmpty r ''item_line_ID''
     \<and> nonEmpty r ''snapshot_qty'' \<and> nonEmpty r ''snapshot_packsize''"
  by (simp add: sanityCheckIncomingRecord_def truthy_js_ands truthy_js_and truthy_fld_nonEmpty
        split: if_splits)

lemma sanity_TransactionBatch:
  "truthy (sanityCheckIncomingRecord TransactionBatch r) \<Longrightarrow>
     nonEmpty r ''ID'' \<and> nonEmpty r ''item_ID'' \<and> nonEmpty r ''item_line_ID''
     \<and> nonEmpty r ''transaction_ID'' \<and> nonEmpty r ''pack_size'' \<and> nonEmpty r ''quantity''"
  by (simp add: sanityCheckIncomingRecord_def truthy_js_ands truthy_js_and truthy_fld_nonEmpty
        split: if_splits)

lemma sanity_RequisitionItem:
  "truthy (sanityCheckIncomingRecord RequisitionItem r) \<Longrightarrow>
     nonEmpty r ''ID'' \<and> nonEmpty r ''requisition_ID'' \<and> nonEmpty r ''item_ID''"
  by (simp add: sanityCheckIncomingRecord_def truthy_js_ands truthy_js_and truthy_fld_nonEmpty
        split: if_splits)

subsection \<open>The address deduplicator, with fields supplied\<close>

lemma distinct_supplied: "distinct (map fst (suppliedAddressFields l1 l2 l3 l4 z))"
  by (simp add: suppliedAddressFields_def)

lemma matchesSupplied_self: "distinct (map fst q) \<Longrightarrow> matchesSupplied q (u, map_of q)"
  by (simp add: matchesSupplied_def list_all_iff)

lemma address_query:
  "(let results = rows;
        results = (if typeofString l1 then filtered ''line1'' l1 results else results);
        results = (if typeofString l2 then filtered ''line2'' l2 results else results);
        results = (if typeofString l3 then filtered ''line3'' l3 results else results);
        results = (if typeofString l4 then filtered ''line4'' l4 results else results);
        results = (if typeofString z then filtered ''zipCode'' z results else results)
    in f results) = f (filter (matchesSupplied (suppliedAddressFields l1 l2 l3 l4 z)) rows)"
  by (simp add: filtered_def suppliedAddressFields_def matchesSupplied_def Let_def conj_ac)

lemma address_object:
  "(let address = Map.empty;
        address = (if typeofString l1 then address(''line1'' \<mapsto> l1) else address);
        address = (if typeofString l2 then address(''line2'' \<mapsto> l2) else address);
        address = (if typeofString l3 then address(''line3'' \<mapsto> l3) else address);
        address = (if typeofString l4 then address(''line4'' \<mapsto> l4) else address);
        address = (if typeofString z then address(''zipCode'' \<mapsto> z) else address)
    in f address) = f (map_of (suppliedAddressFields l1 l2 l3 l4 z))"
  unfolding Let_def
  by (rule arg_cong [where f = f]) (auto simp add: suppliedAddressFields_def fun_eq_iff)

lemma getOrCreateAddress_query:
  "getOrCreateAddress e l1 l2 l3 l4 z d =
     (case filter (matchesSupplied (suppliedAddressFields l1 l2 l3 l4 z)) (tables d Address) of
        row # rest \<Rightarrow> Inr (VRef Address (fst row), d)
      | [] \<Rightarrow> Inr (VRef Address (uuidOf e (uuidCount d)),
                d\<lparr>tables := (tables d)(Address :=
                     AList.update (uuidOf e (uuidCount d))
                       (map_of (suppliedAddressFields l1 l2 l3 l4 z)) (tables d Address)),
                  uuidCount := Suc (uuidCount d)\<rparr>))"
  unfolding getOrCreateAddress_def database_objects_def
  apply (subst address_query)
  apply (subst address_object)
  apply (simp add: bindM_def generateUUID_def database_create_def database_update_def
           split: list.splits)
  done

lemma getOrCreateAddress_stable:
  assumes "getOrCreateAddress e l1 l2 l3 l4 z d = Inr (x, d1)"
    and "tables d2 Address = tables d1 Address"
  shows "getOrCreateAddress e' l1 l2 l3 l4 z d2 = Inr (x, d2)"
proof (cases "filter (matchesSupplied (suppliedAddressFields l1 l2 l3 l4 z)) (tables d Address)")
  case Nil
  with assms(1) have d1: "tables d1 Address =
      AList.update (uuidOf e (uuidCount d)) (map_of (suppliedAddressFields l1 l2 l3 l4 z))
        (tables d Address)" and x: "x = VRef Address (uuidOf e (uuidCount d))"
    by (auto simp add: getOrCreateAddress_query)
  have "filter (matchesSupplied (suppliedAddressFields l1 l2 l3 l4 z)) (tables d2 Address) =
      [(uuidOf e (uuidCount d), map_of (suppliedAddressFields l1 l2 l3 l4 z))]"
    unfolding assms(2) d1
    by (rule filter_update_new [OF Nil matchesSupplied_self [OF distinct_supplied]])
  then show ?thesis
    by (simp add: getOrCreateAddress_query x)
next
  case (Cons row rest)
  with assms(1) have "d1 = d" "x = VRef Address (fst row)"
    by (auto simp add: getOrCreateAddress_query)
  with Cons assms(2) show ?thesis
    by (simp add: getOrCreateAddress_query)
qed

lemma getOrCreateAddress_result:
  assumes "distinct (map fst (tables d Address))"
    and "uuidOf e (uuidCount d) \<notin> fst ` set (tables d Address)"
  shows "\<exists>k fs d1. getOrCreateAddress e l1 l2 l3 l4 z d = Inr (VRef Address k, d1)
     \<and> (k, fs) \<in> set (tables d1 Address)
     \<and> matchesSupplied (suppliedAddressFields l1 l2 l3 l4 z) (k, fs)
     \<and> distinct (map fst (tables d1 Address))
     \<and> ((d1 = d
          \<and> filter (matchesSupplied (suppliedAddressFields l1 l2 l3 l4 z)) (tables d Address)
              \<noteq> [])
        \<or> (filter (matchesSupplied (suppliedAddressFields l1 l2 l3 l4 z)) (tables d Address)
              = []
           \<and> k = uuidOf e (uuidCount d)
           \<and> tables d1 Address =
               tables d Address @ [(k, map_of (suppliedAddressFields l1 l2 l3 l4 z))]
           \<and> uuidCount d1 = Suc (uuidCount d)))"
proof (cases "filter (matchesSupplied (suppliedAddressFields l1 l2 l3 l4 z)) (tables d Address)")
  case Nil
  then show ?thesis
    using assms matchesSupplied_self [OF distinct_supplied, of l1 l2 l3 l4 z]
    by (auto simp add: getOrCreateAddress_query update_absent)
next
  case (Cons row rest)
  then have "row \<in> set (filter (matchesSupplied (suppliedAddressFields l1 l2 l3 l4 z))
      (tables d Address))"
    by simp
  then have "row \<in> set (tables d Address)"
      "matchesSupplied (suppliedAddressFields l1 l2 l3 l4 z) row"
    by auto
  with Cons assms show ?thesis
    by (cases row) (auto simp add: getOrCreateAddress_query)
qed

text \<open>
  C8. In a database whose Address identifiers are unique and with an identifier generator
  that hands out unused, pairwise different identifiers:
  \<open>getOrCreateAddress\<close> returns the first Address that agrees with every supplied field
  (fields not supplied are not looked at) and changes nothing, and when there is none it
  appends a new Address with the generated identifier and exactly the supplied fields.
  Two calls with the same line1 and zip code and no other line return the same Address,
  the second without any change. A call that differs only in the zip code returns another
  Address, and creates it when no Address with that line1 and zip code was there.
\<close>

theorem getOrCreateAddress_dedup:
  assumes ids: "distinct (map fst (tables d Address))"
    and fresh: "\<forall>n \<ge> uuidCount d. uuidOf e n \<notin> fst ` set (tables d Address)"
    and uniq: "inj (uuidOf e)"
  shows "getOrCreateAddress e l1 l2 l3 l4 z d =
       (case filter (matchesSupplied (suppliedAddressFields l1 l2 l3 l4 z)) (tables d Address) of
          row # rest \<Rightarrow> Inr (VRef Address (fst row), d)
        | [] \<Rightarrow> Inr (VRef Address (uuidOf e (uuidCount d)),
                  d\<lparr>tables := (tables d)(Address := tables d Address @
                       [(uuidOf e (uuidCount d), map_of (suppliedAddressFields l1 l2 l3 l4 z))]),
                    uuidCount := Suc (uuidCount d)\<rparr>))
     \<and> (\<exists>x1 d1.
          getOrCreateAddress e (VStr a) VUndef VUndef VUndef (VStr z1) d = Inr (x1, d1)
        \<and> getOrCreateAddress e (VStr a) VUndef VUndef VUndef (VStr z1) d1 = Inr (x1, d1)
        \<and> (z2 \<noteq> z1 \<longrightarrow> (\<exists>x3 d3.
              getOrCreateAddress e (VStr a) VUndef VUndef VUndef (VStr z2) d1 = Inr (x3, d3)
            \<and> x3 \<noteq> x1
            \<and> (filter (matchesSupplied [(''line1'', VStr a), (''zipCode'', VStr z2)])
                  (tables d Address) = [] \<longrightarrow>
                tables d3 Address = tables d1 Address @
                  [(uuidOf e (uuidCount d1),
                    map_of [(''line1'', VStr a), (''zipCode'', VStr z2)])]))))"
proof (intro conjI)
  from fresh have f0: "uuidOf e (uuidCount d) \<notin> fst ` set (tables d Address)"
    by simp
  then show "getOrCreateAddress e l1 l2 l3 l4 z d =
       (case filter (matchesSupplied (suppliedAddressFields l1 l2 l3 l4 z)) (tables d Address) of
          row # rest \<Rightarrow> Inr (VRef Address (fst row), d)
        | [] \<Rightarrow> Inr (VRef Address (uuidOf e (uuidCount d)),
                  d\<lparr>tables := (tables d)(Address := tables d Address @
                       [(uuidOf e (uuidCount d), map_of (suppliedAddressFields l1 l2 l3 l4 z))]),
                    uuidCount := Suc (uuidCount d)\<rparr>))"
    by (simp add: getOrCreateAddress_query update_absent split: list.splits)
  let ?q1 = "[(''line1'', VStr a), (''zipCode'', VStr z1)]"
  let ?q2 = "[(''line1'', VStr a), (''zipCode'', VStr z2)]"
  have q1: "suppliedAddressFields (VStr a) VUndef VUndef VUndef (VStr z1) = ?q1"
    and q2: "suppliedAddressFields (VStr a) VUndef VUndef VUndef (VStr z2) = ?q2"
    by (simp_all add: suppliedAddressFields_def)
  from getOrCreateAddress_result [OF ids f0, of "VStr a" VUndef VUndef VUndef "VStr z1"]
  obtain k1 fs1 d1 where
    c1: "getOrCreateAddress e (VStr a) VUndef VUndef VUndef (VStr z1) d
           = Inr (VRef Address k1, d1)"
    and r1: "(k1, fs1) \<in> set (tables d1 Address)"
    and m1: "matchesSupplied ?q1 (k1, fs1)"
    and ids1: "distinct (map fst (tables d1 Address))"
    and fr: "(d1 = d \<and> filter (matchesSupplied ?q1) (tables d Address) \<noteq> [])
        \<or> (filter (matchesSupplied ?q1) (tables d Address) = []
           \<and> k1 = uuidOf e (uuidCount d)
           \<and> tables d1 Address = tables d Address @ [(k1, map_of ?q1)]
           \<and> uuidCount d1 = Suc (uuidCount d))"
    unfolding q1 by blast
  have c2: "getOrCreateAddress e (VStr a) VUndef VUndef VUndef (VStr z1) d1
              = Inr (VRef Address k1, d1)"
    by (rule getOrCreateAddress_stable [OF c1 refl])
  have f1: "uuidOf e (uuidCount d1) \<notin> fst ` set (tables d1 Address)"
    using fr
  proof
    assume "d1 = d \<and> filter (matchesSupplied ?q1) (tables d Address) \<noteq> []"
    with f0 show ?thesis by simp
  next
    assume h: "filter (matchesSupplied ?q1) (tables d Address) = []
           \<and> k1 = uuidOf e (uuidCount d)
           \<and> tables d1 Address = tables d Address @ [(k1, map_of ?q1)]
           \<and> uuidCount d1 = Suc (uuidCount d)"
    from fresh have "uuidOf e (Suc (uuidCount d)) \<notin> fst ` set (tables d Address)"
      by simp
    moreover from uniq have "uuidOf e (Suc (uuidCount d)) \<noteq> uuidOf e (uuidCount d)"
      by (auto dest: injD)
    ultimately show ?thesis using h by auto
  qed
  have c3: "z2 \<noteq> z1 \<longrightarrow> (\<exists>x3 d3.
              getOrCreateAddress e (VStr a) VUndef VUndef VUndef (VStr z2) d1 = Inr (x3, d3)
            \<and> x3 \<noteq> VRef Address k1
            \<and> (filter (matchesSupplied ?q2) (tables d Address) = [] \<longrightarrow>
                tables d3 Address =
                  tables d1 Address @ [(uuidOf e (uuidCount d1), map_of ?q2)]))"
  proof
    assume ne: "z2 \<noteq> z1"
    from getOrCreateAddress_result [OF ids1 f1, of "VStr a" VUndef VUndef VUndef "VStr z2"]
    obtain k3 fs3 d3 where
      c3: "getOrCreateAddress e (VStr a) VUndef VUndef VUndef (VStr z2) d1
             = Inr (VRef Address k3, d3)"
      and r3: "(k3, fs3) \<in> set (tables d3 Address)"
      and m3: "matchesSupplied ?q2 (k3, fs3)"
      and fr3: "(d3 = d1 \<and> filter (matchesSupplied ?q2) (tables d1 Address) \<noteq> [])
        \<or> (filter (matchesSupplied ?q2) (tables d1 Address) = []
           \<and> k3 = uuidOf e (uuidCount d1)
           \<and> tables d3 Address = tables d1 Address @ [(k3, map_of ?q2)]
           \<and> uuidCount d3 = Suc (uuidCount d1))"
      unfolding q2 by blast
    from m1 m3 ne have fsne: "fs3 \<noteq> fs1"
      by (auto simp add: matchesSupplied_def)
    have nomatch: "\<not> matchesSupplied ?q2 (k1, map_of ?q1)"
      using ne by (simp add: matchesSupplied_def)
    from fr3 show "\<exists>x3 d3.
              getOrCreateAddress e (VStr a) VUndef VUndef VUndef (VStr z2) d1 = Inr (x3, d3)
            \<and> x3 \<noteq> VRef Address k1
            \<and> (filter (matchesSupplied ?q2) (tables d Address) = [] \<longrightarrow>
                tables d3 Address =
                  tables d1 Address @ [(uuidOf e (uuidCount d1), map_of ?q2)])"
    proof
      assume h: "d3 = d1 \<and> filter (matchesSupplied ?q2) (tables d1 Address) \<noteq> []"
      with r3 r1 ids1 fsne have "k3 \<noteq> k1"
        by (auto dest: eq_key_imp_eq_value)
      moreover from h fr nomatch
      have "filter (matchesSupplied ?q2) (tables d Address) \<noteq> []"
        by auto
      ultimately show ?thesis using c3 by auto
    next
      assume h: "filter (matchesSupplied ?q2) (tables d1 Address) = []
           \<and> k3 = uuidOf e (uuidCount d1)
           \<and> tables d3 Address = tables d1 Address @ [(k3, map_of ?q2)]
           \<and> uuidCount d3 = Suc (uuidCount d1)"
      with f1 r1 have "k3 \<noteq> k1"
        by force
      with h c3 show ?thesis by auto
    qed
  qed
  from c1 c2 c3 show "\<exists>x1 d1.
          getOrCreateAddress e (VStr a) VUndef VUndef VUndef (VStr z1) d = Inr (x1, d1)
        \<and> getOrCreateAddress e (VStr a) VUndef VUndef VUndef (VStr z1) d1 = Inr (x1, d1)
        \<and> (z2 \<noteq> z1 \<longrightarrow> (\<exists>x3 d3.
              getOrCreateAddress e (VStr a) VUndef VUndef VUndef (VStr z2) d1 = Inr (x3, d3)
            \<and> x3 \<noteq> x1
            \<and> (filter (matchesSupplied [(''line1'', VStr a), (''zipCode'', VStr z2)])
                  (tables d Address) = [] \<longrightarrow>
                tables d3 Address = tables d1 Address @
                  [(uuidOf e (uuidCount d1),
                    map_of [(''line1'', VStr a), (''zipCode'', VStr z2)])])))"
    by blast
qed

theorem getOrCreateAddress_dedup_witness:
  "distinct (map fst (tables emptyDB Address))
   \<and> inj (uuidOf demoEnv)
   \<and> (\<exists>x1 d1 x3 d3.
        getOrCreateAddress demoEnv (VStr ''1 Main St'') VUndef VUndef VUndef (VStr ''9010'')
          emptyDB = Inr (x1, d1)
      \<and> getOrCreateAddress demoEnv (VStr ''1 Main St'') VUndef VUndef VUndef (VStr ''9010'')
          d1 = Inr (x1, d1)
      \<and> getOrCreateAddress demoEnv (VStr ''1 Main St'') VUndef VUndef VUndef (VStr ''9011'')
          d1 = Inr (x3, d3)
      \<and> x3 \<noteq> x1
      \<and> tables d3 Address = tables d1 Address @
          [(uuidOf demoEnv (uuidCount d1),
            map_of [(''line1'', VStr ''1 Main St''), (''zipCode'', VStr ''9011'')])])"
proof -
  have h1: "distinct (map fst (tables emptyDB Address))"
    by (simp add: emptyDB_def)
  have h2: "\<forall>n \<ge> uuidCount emptyDB. uuidOf demoEnv n \<notin> fst ` set (tables emptyDB Address)"
    by (simp add: emptyDB_def)
  have h3: "inj (uuidOf demoEnv)"
    by (simp add: demoEnv_def inj_def)
  have ne: "''9011'' \<noteq> ''9010''"
    by simp
  have nom: "filter (matchesSupplied [(''line1'', VStr ''1 Main St''), (''zipCode'', VStr ''9011'')])
      (tables emptyDB Address) = []"
    by (simp add: emptyDB_def)
  from getOrCreateAddress_dedup [OF h1 h2 h3, of VUndef VUndef VUndef VUndef VUndef
      "''1 Main St''" "''9010''" "''9011''"] ne nom h1 h3
  show ?thesis
    by blast
qed

subsection \<open>The deletion handler\<close>

lemma deleteRecord_absent:
  assumes "truthy k" and "k \<notin> fst ` set (tables d T)"
  shows "(T \<in> {Item, ItemBatch, ItemCategory, ItemDepartment, MasterList, Name, Stocktake,
            Transaction, TransactionCategory} \<longrightarrow> deleteRecord e T k d = Inr d)
     \<and> (T = NumberSequence \<and> uuidOf e (uuidCount d) \<notin> fst ` set (tables d NumberSequence) \<longrightarrow>
          deleteRecord e T k d = Inr (d\<lparr>uuidCount := Suc (uuidCount d)\<rparr>))"
proof (intro conjI impI)
  assume T: "T \<in> {Item, ItemBatch, ItemCategory, ItemDepartment, MasterList, Name, Stocktake,
            Transaction, TransactionCategory}"
  then have ht: "hasTemplate T"
    by (auto simp add: hasTemplate_def)
  have "AList.delete k (AList.update k (placeholderFields e T k) (tables d T)) = tables d T"
    using assms(2) by (simp add: delete_update_same)
  with T assms show "deleteRecord e T k d = Inr d"
    by (auto simp add: deleteRecord_def getObject_id_template [OF ht] bindM_def refOf_def
          ensureRow_def)
next
  assume h: "T = NumberSequence \<and> uuidOf e (uuidCount d) \<notin> fst ` set (tables d NumberSequence)"
  have "AList.delete (uuidOf e (uuidCount d))
          (AList.update (uuidOf e (uuidCount d)) [''sequenceKey'' \<mapsto> k] (tables d NumberSequence))
        = tables d NumberSequence"
    using h by (simp add: delete_update_same)
  with h assms lengthLt1_falsy [of k]
  show "deleteRecord e T k d = Inr (d\<lparr>uuidCount := Suc (uuidCount d)\<rparr>)"
    by (auto simp add: deleteRecord_def getObject_def filtered_def database_objects_def
          list_case_filter generatePlaceholder_def generateUUID_def run_defs)
qed

text \<open>
  An entity that is in the database is removed, for each of the nineteen supported types.
\<close>

lemma deleteRecord_present:
  assumes "truthy k" and "k \<in> fst ` set (tables d T)"
    and "T \<in> {Item, ItemBatch, ItemCategory, ItemDepartment, ItemStoreJoin,
          MasterList, MasterListItem, MasterListNameJoin, Name, NameStoreJoin,
          NumberSequence, NumberToReuse, Requisition, RequisitionItem, Stocktake,
          StocktakeBatch, Transaction, TransactionBatch, TransactionCategory}"
  shows "deleteRecord e T k d =
           Inr (d\<lparr>tables := (tables d)(T := AList.delete k (tables d T))\<rparr>)"
  using assms hd_filter_key [of k "tables d T"]
  by (simp add: deleteRecord_def getObject_def filtered_def database_objects_def
        list_case_filter ex_key bindM_def truthy_lengthLt1 del: insert_iff)

text \<open>
  C2 fails on the code. \<open>deleteRecord\<close> resolves the entity with \<open>getObject\<close>, which
  asks \<open>generatePlaceholder\<close> for a placeholder when no entity has the identifier.
  For ItemStoreJoin, MasterListItem, MasterListNameJoin, NameStoreJoin, NumberToReuse,
  Requisition, RequisitionItem, StocktakeBatch and TransactionBatch there is no template,
  and deleting an entity that is absent throws \<open>Unsupported database object type\<close>
  instead of doing nothing. For the nine types that have a template under the given
  identifier the deletion of an absent entity does leave the database as it was, without
  an error: the placeholder is created and deleted again. For NumberSequence, whose
  placeholder gets a generated identifier, the tables are unchanged when that identifier is
  unused, and one identifier is used up.
\<close>

theorem deleteRecord_absent_entity:
  assumes "truthy k" and "k \<notin> fst ` set (tables d T)"
  shows "(T \<in> {ItemStoreJoin, MasterListItem, MasterListNameJoin, NameStoreJoin,
                NumberToReuse, Requisition, RequisitionItem, StocktakeBatch,
                TransactionBatch} \<longrightarrow>
            deleteRecord e T k d = Inl UnsupportedObjectType)
     \<and> (T \<in> {Item, ItemBatch, ItemCategory, ItemDepartment, MasterList, Name, Stocktake,
                Transaction, TransactionCategory} \<longrightarrow>
            deleteRecord e T k d = Inr d)
     \<and> (T = NumberSequence
          \<and> uuidOf e (uuidCount d) \<notin> fst ` set (tables d NumberSequence) \<longrightarrow>
            deleteRecord e T k d = Inr (d\<lparr>uuidCount := Suc (uuidCount d)\<rparr>))"
proof (intro conjI impI)
  assume T: "T \<in> {ItemStoreJoin, MasterListItem, MasterListNameJoin, NameStoreJoin,
                NumberToReuse, Requisition, RequisitionItem, StocktakeBatch,
                TransactionBatch}"
  then have "getObject e T k ''id'' d = Inl UnsupportedObjectType"
    using assms by (subst getObject_id_no_template) auto
  with T show "deleteRecord e T k d = Inl UnsupportedObjectType"
    by (auto simp add: deleteRecord_def bindM_def)
next
  assume "T \<in> {Item, ItemBatch, ItemCategory, ItemDepartment, MasterList, Name, Stocktake,
            Transaction, TransactionCategory}"
  with deleteRecord_absent [OF assms, of e] show "deleteRecord e T k d = Inr d"
    by blast
next
  assume "T = NumberSequence \<and> uuidOf e (uuidCount d) \<notin> fst ` set (tables d NumberSequence)"
  with deleteRecord_absent [OF assms, of e]
  show "deleteRecord e T k d = Inr (d\<lparr>uuidCount := Suc (uuidCount d)\<rparr>)"
    by blast
qed

theorem deleteRecord_absent_entity_witness:
  "truthy (VStr ''R1'') \<and> VStr ''R1'' \<notin> fst ` set (tables emptyDB Requisition)
   \<and> deleteRecord demoEnv Requisition (VStr ''R1'') emptyDB = Inl UnsupportedObjectType
   \<and> truthy (VStr ''TB1'') \<and> VStr ''TB1'' \<notin> fst ` set (tables emptyDB TransactionBatch)
   \<and> deleteRecord demoEnv TransactionBatch (VStr ''TB1'') emptyDB = Inl UnsupportedObjectType
   \<and> truthy (VStr ''I9'') \<and> VStr ''I9'' \<notin> fst ` set (tables emptyDB Item)
   \<and> deleteRecord demoEnv Item (VStr ''I9'') emptyDB = Inr emptyDB
   \<and> truthy (VStr ''N1'')
   \<and> VStr ''N1'' \<notin> fst ` set (tables emptyDB NumberSequence)
   \<and> uuidOf demoEnv (uuidCount emptyDB) \<notin> fst ` set (tables emptyDB NumberSequence)
   \<and> deleteRecord demoEnv NumberSequence (VStr ''N1'') emptyDB =
       Inr (emptyDB\<lparr>uuidCount := Suc (uuidCount emptyDB)\<rparr>)"
proof -
  have t: "truthy (VStr ''R1'')" "truthy (VStr ''TB1'')" "truthy (VStr ''I9'')"
    "truthy (VStr ''N1'')"
    by simp_all
  have a: "VStr ''R1'' \<notin> fst ` set (tables emptyDB Requisition)"
    "VStr ''TB1'' \<notin> fst ` set (tables emptyDB TransactionBatch)"
    "VStr ''I9'' \<notin> fst ` set (tables emptyDB Item)"
    "VStr ''N1'' \<notin> fst ` set (tables emptyDB NumberSequence)"
    "uuidOf demoEnv (uuidCount emptyDB) \<notin> fst ` set (tables emptyDB NumberSequence)"
    by (simp_all add: emptyDB_def)
  from t a
    deleteRecord_absent_entity [OF t(1) a(1), of demoEnv]
    deleteRecord_absent_entity [OF t(2) a(2), of demoEnv]
    deleteRecord_absent_entity [OF t(3) a(3), of demoEnv]
    deleteRecord_absent_entity [OF t(4) a(4), of demoEnv]
  show ?thesis
    by simp
qed

subsection \<open>Pack-size normalization\<close>

lemma packs_ItemBatch:
  assumes "truthy (sanityCheckIncomingRecord ItemBatch r)"
  shows "\<exists>d' fs. createOrUpdateRecord e ItemBatch r d = Inr d'
     \<and> map_of (tables d' ItemBatch) (fld r ''ID'') = Some fs
     \<and> fs ''packSize'' = Some (VNum (Fin 1))
     \<and> fs ''numberOfPacks'' = Some (VNum (jmul e (parseFloat e (fld r ''pack_size''))
            (parseFloat e (fld r ''quantity''))))"
  using assms sanity_ItemBatch [OF assms]
  by (simp add: createOrUpdateRecord_def case_ItemBatch_def run_defs getObject_templates
       refOf_def truthy_fld_nonEmpty parseNumber_nonEmpty js_mul_num update_conv')

lemma packs_StocktakeBatch:
  assumes "truthy (sanityCheckIncomingRecord StocktakeBatch r)"
  shows "\<exists>d' fs. createOrUpdateRecord e StocktakeBatch r d = Inr d'
     \<and> map_of (tables d' StocktakeBatch) (fld r ''ID'') = Some fs
     \<and> fs ''packSize'' = Some (VNum (Fin 1))
     \<and> fs ''snapshotNumberOfPacks'' =
         Some (VNum (jmul e (parseFloat e (fld r ''snapshot_packsize''))
            (parseFloat e (fld r ''snapshot_qty''))))
     \<and> fs ''countedNumberOfPacks'' =
         Some (VNum (jmul e (parseFloat e (fld r ''snapshot_packsize''))
            (parseFloat e (fld r ''snapshot_qty''))))"
  using assms sanity_StocktakeBatch [OF assms]
  by (simp add: createOrUpdateRecord_def case_StocktakeBatch_def run_defs getObject_templates
       refOf_def truthy_fld_nonEmpty parseNumber_nonEmpty js_mul_num update_conv')

lemma packs_TransactionBatch:
  assumes "truthy (sanityCheckIncomingRecord TransactionBatch r)"
  shows "\<exists>d' fs. createOrUpdateRecord e TransactionBatch r d = Inr d'
     \<and> map_of (tables d' TransactionBatch) (fld r ''ID'') = Some fs
     \<and> fs ''packSize'' = Some (VNum (Fin 1))
     \<and> fs ''numberOfPacks'' = Some (VNum (jmul e (parseFloat e (fld r ''pack_size''))
            (parseFloat e (fld r ''quantity''))))
     \<and> fs ''numberOfPacksSent'' = Some (VNum (jmul e (parseFloat e (fld r ''pack_size''))
            (parseFloat e (fld r ''quantity''))))"
  using assms sanity_TransactionBatch [OF assms]
  by (simp add: createOrUpdateRecord_def case_TransactionBatch_def run_defs getObject_templates
       refOf_def truthy_fld_nonEmpty parseNumber_nonEmpty js_mul_num update_conv')

lemma sanity_demo_batches:
  "truthy (sanityCheckIncomingRecord ItemBatch (demoItemBatch p)) = (p \<noteq> [])"
  "truthy (sanityCheckIncomingRecord StocktakeBatch (demoStocktakeBatch p)) = (p \<noteq> [])"
  "truthy (sanityCheckIncomingRecord TransactionBatch (demoTransactionBatch p)) = (p \<noteq> [])"
  "truthy (sanityCheckIncomingRecord Item (demoItem p)) = (p \<noteq> [])"
  "truthy (sanityCheckIncomingRecord RequisitionItem demoRequisitionItem)"
  by (simp_all add: sanityCheckIncomingRecord_def truthy_js_ands truthy_js_and fld_def
        demoItemBatch_def demoStocktakeBatch_def demoTransactionBatch_def demoItem_def
        demoRequisitionItem_def)

lemma product_cases:
  "(\<forall>p q. P = Fin p \<and> Q = Fin q \<longrightarrow> jmul e P Q = roundD e (p * q))
   \<and> (P = NaN \<or> Q = NaN \<longrightarrow> jmul e P Q = NaN)"
  by (cases P; cases Q) simp_all

text \<open>
  C4. An ItemBatch, StocktakeBatch or TransactionBatch record that passes the sanity
  check is integrated without an error, and the entity stored under its ID has pack size
  1 and each of its pack counts equal to the number \<open>n\<close>, the product of the record's
  pack size \<open>P\<close> and quantity \<open>Q\<close> as \<open>parseFloat\<close> reads them and as JavaScript
  multiplies them: when both are finite, \<open>n\<close> is their exact product rounded to a double
  (an infinity when the product is beyond the range of the doubles); when one of them is
  NaN, \<open>n\<close> is NaN; with an infinite factor, \<open>n\<close> is what IEEE 754 gives.
\<close>

theorem pack_size_normalization:
  "(truthy (sanityCheckIncomingRecord ItemBatch r) \<longrightarrow>
      (\<exists>d' fs n. createOrUpdateRecord e ItemBatch r d = Inr d'
         \<and> map_of (tables d' ItemBatch) (fld r ''ID'') = Some fs
         \<and> fs ''packSize'' = Some (VNum (Fin 1))
         \<and> fs ''numberOfPacks'' = Some (VNum n)
         \<and> (\<forall>p q. parseFloat e (fld r ''pack_size'') = Fin p
               \<and> parseFloat e (fld r ''quantity'') = Fin q \<longrightarrow> n = roundD e (p * q))
         \<and> (parseFloat e (fld r ''pack_size'') = NaN
               \<or> parseFloat e (fld r ''quantity'') = NaN \<longrightarrow> n = NaN)
         \<and> n = jmul e (parseFloat e (fld r ''pack_size''))
                 (parseFloat e (fld r ''quantity''))))
   \<and> (truthy (sanityCheckIncomingRecord StocktakeBatch r) \<longrightarrow>
      (\<exists>d' fs n. createOrUpdateRecord e StocktakeBatch r d = Inr d'
         \<and> map_of (tables d' StocktakeBatch) (fld r ''ID'') = Some fs
         \<and> fs ''packSize'' = Some (VNum (Fin 1))
         \<and> fs ''snapshotNumberOfPacks'' = Some (VNum n)
         \<and> fs ''countedNumberOfPacks'' = Some (VNum n)
         \<and> (\<forall>p q. parseFloat e (fld r ''snapshot_packsize'') = Fin p
               \<and> parseFloat e (fld r ''snapshot_qty'') = Fin q \<longrightarrow> n = roundD e (p * q))
         \<and> (parseFloat e (fld r ''snapshot_packsize'') = NaN
               \<or> parseFloat e (fld r ''snapshot_qty'') = NaN \<longrightarrow> n = NaN)
         \<and> n = jmul e (parseFloat e (fld r ''snapshot_packsize''))
                 (parseFloat e (fld r ''snapshot_qty''))))
   \<and> (truthy (sanityCheckIncomingRecord TransactionBatch r) \<longrightarrow>
      (\<exists>d' fs n. createOrUpdateRecord e TransactionBatch r d = Inr d'
         \<and> map_of (tables d' TransactionBatch) (fld r ''ID'') = Some fs
         \<and> fs ''packSize'' = Some (VNum (Fin 1))
         \<and> fs ''numberOfPacks'' = Some (VNum n)
         \<and> fs ''numberOfPacksSent'' = Some (VNum n)
         \<and> (\<forall>p q. parseFloat e (fld r ''pack_size'') = Fin p
               \<and> parseFloat e (fld r ''quantity'') = Fin q \<longrightarrow> n = roundD e (p * q))
         \<and> (parseFloat e (fld r ''pack_size'') = NaN
               \<or> parseFloat e (fld r ''quantity'') = NaN \<longrightarrow> n = NaN)
         \<and> n = jmul e (parseFloat e (fld r ''pack_size''))
                 (parseFloat e (fld r ''quantity''))))"
proof (intro conjI impI)
  assume "truthy (sanityCheckIncomingRecord ItemBatch r)"
  from packs_ItemBatch [OF this, of e d] obtain d' fs where
    h: "createOrUpdateRecord e ItemBatch r d = Inr d'"
      "map_of (tables d' ItemBatch) (fld r ''ID'') = Some fs"
      "fs ''packSize'' = Some (VNum (Fin 1))"
      "fs ''numberOfPacks'' = Some (VNum (jmul e (parseFloat e (fld r ''pack_size''))
            (parseFloat e (fld r ''quantity''))))"
    by blast
  from h product_cases [of "parseFloat e (fld r ''pack_size'')"
      "parseFloat e (fld r ''quantity'')" e]
  show "\<exists>d' fs n. createOrUpdateRecord e ItemBatch r d = Inr d'
         \<and> map_of (tables d' ItemBatch) (fld r ''ID'') = Some fs
         \<and> fs ''packSize'' = Some (VNum (Fin 1))
         \<and> fs ''numberOfPacks'' = Some (VNum n)
         \<and> (\<forall>p q. parseFloat e (fld r ''pack_size'') = Fin p
               \<and> parseFloat e (fld r ''quantity'') = Fin q \<longrightarrow> n = roundD e (p * q))
         \<and> (parseFloat e (fld r ''pack_size'') = NaN
               \<or> parseFloat e (fld r ''quantity'') = NaN \<longrightarrow> n = NaN)
         \<and> n = jmul e (parseFloat e (fld r ''pack_size''))
                 (parseFloat e (fld r ''quantity''))"
    by (intro exI [of _ d'] exI [of _ fs]
          exI [of _ "jmul e (parseFloat e (fld r ''pack_size''))
            (parseFloat e (fld r ''quantity''))"]) simp
next
  assume "truthy (sanityCheckIncomingRecord StocktakeBatch r)"
  from packs_StocktakeBatch [OF this, of e d] obtain d' fs where
    h: "createOrUpdateRecord e StocktakeBatch r d = Inr d'"
      "map_of (tables d' StocktakeBatch) (fld r ''ID'') = Some fs"
      "fs ''packSize'' = Some (VNum (Fin 1))"
      "fs ''snapshotNumberOfPacks'' =
         Some (VNum (jmul e (parseFloat e (fld r ''snapshot_packsize''))
            (parseFloat e (fld r ''snapshot_qty''))))"
      "fs ''countedNumberOfPacks'' =
         Some (VNum (jmul e (parseFloat e (fld r ''snapshot_packsize''))
            (parseFloat e (fld r ''snapshot_qty''))))"
    by blast
  from h product_cases [of "parseFloat e (fld r ''snapshot_packsize'')"
      "parseFloat e (fld r ''snapshot_qty'')" e]
  show "\<exists>d' fs n. createOrUpdateRecord e StocktakeBatch r d = Inr d'
         \<and> map_of (tables d' StocktakeBatch) (fld r ''ID'') = Some fs
         \<and> fs ''packSize'' = Some (VNum (Fin 1))
         \<and> fs ''snapshotNumberOfPacks'' = Some (VNum n)
         \<and> fs ''countedNumberOfPacks'' = Some (VNum n)
         \<and> (\<forall>p q. parseFloat e (fld r ''snapshot_packsize'') = Fin p
               \<and> parseFloat e (fld r ''snapshot_qty'') = Fin q \<longrightarrow> n = roundD e (p * q))
         \<and> (parseFloat e (fld r ''snapshot_packsize'') = NaN
               \<or> parseFloat e (fld r ''snapshot_qty'') = NaN \<longrightarrow> n = NaN)
         \<and> n = jmul e (parseFloat e (fld r ''snapshot_packsize''))
                 (parseFloat e (fld r ''snapshot_qty''))"
    by (intro exI [of _ d'] exI [of _ fs]
          exI [of _ "jmul e (parseFloat e (fld r ''snapshot_packsize''))
            (parseFloat e (fld r ''snapshot_qty''))"]) simp
next
  assume "truthy (sanityCheckIncomingRecord TransactionBatch r)"
  from packs_TransactionBatch [OF this, of e d] obtain d' fs where
    h: "createOrUpdateRecord e TransactionBatch r d = Inr d'"
      "map_of (tables d' TransactionBatch) (fld r ''ID'') = Some fs"
      "fs ''packSize'' = Some (VNum (Fin 1))"
      "fs ''numberOfPacks'' = Some (VNum (jmul e (parseFloat e (fld r ''pack_size''))
            (parseFloat e (fld r ''quantity''))))"
      "fs ''numberOfPacksSent'' = Some (VNum (jmul e (parseFloat e (fld r ''pack_size''))
            (parseFloat e (fld r ''quantity''))))"
    by blast
  from h product_cases [of "parseFloat e (fld r ''pack_size'')"
      "parseFloat e (fld r ''quantity'')" e]
  show "\<exists>d' fs n. createOrUpdateRecord e TransactionBatch r d = Inr d'
         \<and> map_of (tables d' TransactionBatch) (fld r ''ID'') = Some fs
         \<and> fs ''packSize'' = Some (VNum (Fin 1))
         \<and> fs ''numberOfPacks'' = Some (VNum n)
         \<and> fs ''numberOfPacksSent'' = Some (VNum n)
         \<and> (\<forall>p q. parseFloat e (fld r ''pack_size'') = Fin p
               \<and> parseFloat e (fld r ''quantity'') = Fin q \<longrightarrow> n = roundD e (p * q))
         \<and> (parseFloat e (fld r ''pack_size'') = NaN
               \<or> parseFloat e (fld r ''quantity'') = NaN \<longrightarrow> n = NaN)
         \<and> n = jmul e (parseFloat e (fld r ''pack_size''))
                 (parseFloat e (fld r ''quantity''))"
    by (intro exI [of _ d'] exI [of _ fs]
          exI [of _ "jmul e (parseFloat e (fld r ''pack_size''))
            (parseFloat e (fld r ''quantity''))"]) simp
qed

theorem pack_size_normalization_witness:
  "truthy (sanityCheckIncomingRecord ItemBatch (demoItemBatch ''2''))
   \<and> (\<exists>d' fs. createOrUpdateRecord demoEnv ItemBatch (demoItemBatch ''2'') emptyDB = Inr d'
         \<and> map_of (tables d' ItemBatch) (VStr ''B1'') = Some fs
         \<and> fs ''packSize'' = Some (VNum (Fin 1))
         \<and> fs ''numberOfPacks'' = Some (VNum (Fin 10)))
   \<and> truthy (sanityCheckIncomingRecord ItemBatch (demoItemBatch ''5''))
   \<and> (\<exists>d' fs. createOrUpdateRecord demoEnv ItemBatch (demoItemBatch ''5'') emptyDB = Inr d'
         \<and> map_of (tables d' ItemBatch) (VStr ''B1'') = Some fs
         \<and> fs ''packSize'' = Some (VNum (Fin 1))
         \<and> fs ''numberOfPacks'' = Some (VNum (Fin 25)))
   \<and> truthy (sanityCheckIncomingRecord ItemBatch (demoItemBatch ''x''))
   \<and> (\<exists>d' fs. createOrUpdateRecord demoEnv ItemBatch (demoItemBatch ''x'') emptyDB = Inr d'
         \<and> map_of (tables d' ItemBatch) (VStr ''B1'') = Some fs
         \<and> fs ''packSize'' = Some (VNum (Fin 1))
         \<and> fs ''numberOfPacks'' = Some (VNum NaN))
   \<and> truthy (sanityCheckIncomingRecord StocktakeBatch (demoStocktakeBatch ''2''))
   \<and> (\<exists>d' fs. createOrUpdateRecord demoEnv StocktakeBatch (demoStocktakeBatch ''2'') emptyDB
           = Inr d'
         \<and> map_of (tables d' StocktakeBatch) (VStr ''SB1'') = Some fs
         \<and> fs ''packSize'' = Some (VNum (Fin 1))
         \<and> fs ''snapshotNumberOfPacks'' = Some (VNum (Fin 10))
         \<and> fs ''countedNumberOfPacks'' = Some (VNum (Fin 10)))
   \<and> truthy (sanityCheckIncomingRecord TransactionBatch (demoTransactionBatch ''2''))
   \<and> (\<exists>d' fs. createOrUpdateRecord demoEnv TransactionBatch (demoTransactionBatch ''2'')
           emptyDB = Inr d'
         \<and> map_of (tables d' TransactionBatch) (VStr ''TB1'') = Some fs
         \<and> fs ''packSize'' = Some (VNum (Fin 1))
         \<and> fs ''numberOfPacks'' = Some (VNum (Fin 10))
         \<and> fs ''numberOfPacksSent'' = Some (VNum (Fin 10)))"
proof -
  have v: "fld (demoItemBatch p) ''ID'' = VStr ''B1''"
    "fld (demoStocktakeBatch p) ''ID'' = VStr ''SB1''"
    "fld (demoTransactionBatch p) ''ID'' = VStr ''TB1''"
    "parseFloat demoEnv (fld (demoItemBatch ''2'') ''pack_size'') = Fin 2"
    "parseFloat demoEnv (fld (demoItemBatch ''5'') ''pack_size'') = Fin 5"
    "parseFloat demoEnv (fld (demoItemBatch ''x'') ''pack_size'') = NaN"
    "parseFloat demoEnv (fld (demoItemBatch p) ''quantity'') = Fin 5"
    "parseFloat demoEnv (fld (demoStocktakeBatch ''2'') ''snapshot_packsize'') = Fin 2"
    "parseFloat demoEnv (fld (demoStocktakeBatch p) ''snapshot_qty'') = Fin 5"
    "parseFloat demoEnv (fld (demoTransactionBatch ''2'') ''pack_size'') = Fin 2"
    "parseFloat demoEnv (fld (demoTransactionBatch p) ''quantity'') = Fin 5"
    "roundD demoEnv x = Fin x" for p x
    by (simp_all add: fld_def demoEnv_def demoItemBatch_def demoStocktakeBatch_def
          demoTransactionBatch_def)
  from pack_size_normalization [of "demoItemBatch ''2''" demoEnv emptyDB]
    pack_size_normalization [of "demoItemBatch ''5''" demoEnv emptyDB]
    pack_size_normalization [of "demoItemBatch ''x''" demoEnv emptyDB]
    pack_size_normalization [of "demoStocktakeBatch ''2''" demoEnv emptyDB]
    pack_size_normalization [of "demoTransactionBatch ''2''" demoEnv emptyDB]
  show ?thesis
    by (simp add: sanity_demo_batches v)
qed

subsection \<open>Division guards\<close>

lemma guard_RequisitionItem:
  assumes "truthy (sanityCheckIncomingRecord RequisitionItem r)"
    and "map_of (tables d Requisition) (fld r ''requisition_ID'') = Some rq"
    and "rq ''daysToSupply'' = Some (VNum (Fin 0))"
  shows "\<exists>d' fs. createOrUpdateRecord e RequisitionItem r d = Inr d'
     \<and> map_of (tables d' RequisitionItem) (fld r ''ID'') = Some fs
     \<and> fs ''dailyUsage'' = Some (VNum (Fin 0))"
  using assms sanity_RequisitionItem [OF assms(1)] key_of_map_of [OF assms(2)]
  by (simp add: createOrUpdateRecord_def case_RequisitionItem_def run_defs getObject_templates
       getObject_id_no_template refOf_def truthy_fld_nonEmpty update_conv')

lemma guard_Item:
  assumes "truthy (sanityCheckIncomingRecord Item r)"
    and "parseNumber e (fld r ''default_pack_size'') \<in> {VNull, VNum (Fin 0)}"
  shows "\<exists>d' fs. createOrUpdateRecord e Item r d = Inr d'
     \<and> map_of (tables d' Item) (fld r ''ID'') = Some fs
     \<and> fs ''defaultPrice'' = Some (VNum (Fin 0))"
  using assms sanity_Item [OF assms(1)]
  by (auto simp add: createOrUpdateRecord_def case_Item_def run_defs getObject_templates
       refOf_def truthy_fld_nonEmpty update_conv')

lemma guard_ItemBatch:
  assumes "truthy (sanityCheckIncomingRecord ItemBatch r)"
    and "parseNumber e (fld r ''pack_size'') \<in> {VNull, VNum (Fin 0)}"
  shows "\<exists>d' fs. createOrUpdateRecord e ItemBatch r d = Inr d'
     \<and> map_of (tables d' ItemBatch) (fld r ''ID'') = Some fs
     \<and> fs ''costPrice'' = Some (VNum (Fin 0)) \<and> fs ''sellPrice'' = Some (VNum (Fin 0))"
  using assms sanity_ItemBatch [OF assms(1)]
  by (auto simp add: createOrUpdateRecord_def case_ItemBatch_def run_defs getObject_templates
       refOf_def truthy_fld_nonEmpty update_conv')

lemma guard_StocktakeBatch:
  assumes "truthy (sanityCheckIncomingRecord StocktakeBatch r)"
    and "parseNumber e (fld r ''snapshot_packsize'') \<in> {VNull, VNum (Fin 0)}"
  shows "\<exists>d' fs. createOrUpdateRecord e StocktakeBatch r d = Inr d'
     \<and> map_of (tables d' StocktakeBatch) (fld r ''ID'') = Some fs
     \<and> fs ''costPrice'' = Some (VNum (Fin 0)) \<and> fs ''sellPrice'' = Some (VNum (Fin 0))"
  using assms sanity_StocktakeBatch [OF assms(1)]
  by (auto simp add: createOrUpdateRecord_def case_StocktakeBatch_def run_defs
       getObject_templates refOf_def truthy_fld_nonEmpty update_conv')

lemma guard_TransactionBatch:
  assumes "truthy (sanityCheckIncomingRecord TransactionBatch r)"
    and "parseNumber e (fld r ''pack_size'') \<in> {VNull, VNum (Fin 0)}"
  shows "\<exists>d' fs. createOrUpdateRecord e TransactionBatch r d = Inr d'
     \<and> map_of (tables d' TransactionBatch) (fld r ''ID'') = Some fs
     \<and> fs ''costPrice'' = Some (VNum (Fin 0)) \<and> fs ''sellPrice'' = Some (VNum (Fin 0))"
  using assms sanity_TransactionBatch [OF assms(1)]
  by (auto simp add: createOrUpdateRecord_def case_TransactionBatch_def run_defs
       getObject_templates refOf_def truthy_fld_nonEmpty update_conv')

lemma guard_body_Item:
  assumes "case_Item e r d = Inr d'"
    and "\<not> truthy (parseNumber e (fld r ''default_pack_size''))"
  shows "\<exists>fs. map_of (tables d' Item) (fld r ''ID'') = Some fs
     \<and> fs ''defaultPrice'' = Some (VNum (Fin 0))"
  using assms
  by (auto simp add: case_Item_def run_defs getObject_templates update_conv')

lemma guard_body_ItemBatch:
  assumes "case_ItemBatch e r d = Inr d'"
    and "\<not> truthy (parseNumber e (fld r ''pack_size''))"
  shows "\<exists>fs. map_of (tables d' ItemBatch) (fld r ''ID'') = Some fs
     \<and> fs ''costPrice'' = Some (VNum (Fin 0)) \<and> fs ''sellPrice'' = Some (VNum (Fin 0))"
  using assms
  by (auto simp add: case_ItemBatch_def run_defs getObject_templates addDependent_refOf
        update_conv' split: if_splits)

lemma guard_body_StocktakeBatch:
  assumes "case_StocktakeBatch e r d = Inr d'"
    and "\<not> truthy (parseNumber e (fld r ''snapshot_packsize''))"
  shows "\<exists>fs. map_of (tables d' StocktakeBatch) (fld r ''ID'') = Some fs
     \<and> fs ''costPrice'' = Some (VNum (Fin 0)) \<and> fs ''sellPrice'' = Some (VNum (Fin 0))"
  using assms
  by (auto simp add: case_StocktakeBatch_def run_defs getObject_templates addDependent_refOf
        update_conv' split: if_splits)

lemma guard_body_TransactionBatch:
  assumes "case_TransactionBatch e r d = Inr d'"
    and "\<not> truthy (parseNumber e (fld r ''pack_size''))"
  shows "\<exists>fs. map_of (tables d' TransactionBatch) (fld r ''ID'') = Some fs
     \<and> fs ''costPrice'' = Some (VNum (Fin 0)) \<and> fs ''sellPrice'' = Some (VNum (Fin 0))"
  using assms
  by (auto simp add: case_TransactionBatch_def run_defs getObject_templates addDependent_refOf
        setField_refOf update_conv' split: if_splits)

lemma case_Item_runs: "\<exists>d'. case_Item e r d = Inr d'"
  by (simp add: case_Item_def run_defs getObject_templates)

lemma case_ItemBatch_runs:
  "truthy (fld r ''item_ID'') \<Longrightarrow> \<exists>d'. case_ItemBatch e r d = Inr d'"
  by (simp add: case_ItemBatch_def run_defs getObject_templates addDependent_refOf)

lemma case_StocktakeBatch_runs:
  "truthy (fld r ''stock_take_ID'') \<Longrightarrow> \<exists>d'. case_StocktakeBatch e r d = Inr d'"
  by (simp add: case_StocktakeBatch_def run_defs getObject_templates addDependent_refOf)

lemma case_TransactionBatch_runs:
  "truthy (fld r ''transaction_ID'') \<Longrightarrow> truthy (fld r ''item_line_ID'') \<Longrightarrow>
   truthy (fld r ''item_ID'') \<Longrightarrow> \<exists>d'. case_TransactionBatch e r d = Inr d'"
  by (simp add: case_TransactionBatch_def run_defs getObject_templates addDependent_refOf
        setField_refOf)

lemma falsy_zero_or_null: "v \<in> {VNull, VNum (Fin 0)} \<Longrightarrow> \<not> truthy v"
  by auto

text \<open>
  C5. A RequisitionItem record that passes the sanity check and whose Requisition is in
  the database with \<open>daysToSupply\<close> 0 is integrated without an error, with
  \<open>dailyUsage\<close> 0. An Item, ItemBatch, StocktakeBatch or TransactionBatch record that
  passes the sanity check and whose pack size parses to 0 is integrated without an error,
  with its price fields 0. A record whose pack size is absent or empty does not pass the
  sanity check, so \<open>createOrUpdateRecord\<close> integrates nothing for it; the guard of its
  case gives 0 for such a pack size too, which the last four parts state on the bodies
  of the cases.
\<close>

theorem division_guards:
  "(truthy (sanityCheckIncomingRecord RequisitionItem r)
      \<and> map_of (tables d Requisition) (fld r ''requisition_ID'') = Some rq
      \<and> rq ''daysToSupply'' = Some (VNum (Fin 0)) \<longrightarrow>
      (\<exists>d' fs. createOrUpdateRecord e RequisitionItem r d = Inr d'
         \<and> map_of (tables d' RequisitionItem) (fld r ''ID'') = Some fs
         \<and> fs ''dailyUsage'' = Some (VNum (Fin 0))))
   \<and> (truthy (sanityCheckIncomingRecord Item r)
      \<and> parseNumber e (fld r ''default_pack_size'') \<in> {VNull, VNum (Fin 0)} \<longrightarrow>
      (\<exists>d' fs. createOrUpdateRecord e Item r d = Inr d'
         \<and> map_of (tables d' Item) (fld r ''ID'') = Some fs
         \<and> fs ''defaultPrice'' = Some (VNum (Fin 0))))
   \<and> (truthy (sanityCheckIncomingRecord ItemBatch r)
      \<and> parseNumber e (fld r ''pack_size'') \<in> {VNull, VNum (Fin 0)} \<longrightarrow>
      (\<exists>d' fs. createOrUpdateRecord e ItemBatch r d = Inr d'
         \<and> map_of (tables d' ItemBatch) (fld r ''ID'') = Some fs
         \<and> fs ''costPrice'' = Some (VNum (Fin 0)) \<and> fs ''sellPrice'' = Some (VNum (Fin 0))))
   \<and> (truthy (sanityCheckIncomingRecord StocktakeBatch r)
      \<and> parseNumber e (fld r ''snapshot_packsize'') \<in> {VNull, VNum (Fin 0)} \<longrightarrow>
      (\<exists>d' fs. createOrUpdateRecord e StocktakeBatch r d = Inr d'
         \<and> map_of (tables d' StocktakeBatch) (fld r ''ID'') = Some fs
         \<and> fs ''costPrice'' = Some (VNum (Fin 0)) \<and> fs ''sellPrice'' = Some (VNum (Fin 0))))
   \<and> (truthy (sanityCheckIncomingRecord TransactionBatch r)
      \<and> parseNumber e (fld r ''pack_size'') \<in> {VNull, VNum (Fin 0)} \<longrightarrow>
      (\<exists>d' fs. createOrUpdateRecord e TransactionBatch r d = Inr d'
         \<and> map_of (tables d' TransactionBatch) (fld r ''ID'') = Some fs
         \<and> fs ''costPrice'' = Some (VNum (Fin 0)) \<and> fs ''sellPrice'' = Some (VNum (Fin 0))))
   \<and> (case_Item e r d = Inr d1
      \<and> parseNumber e (fld r ''default_pack_size'') \<in> {VNull, VNum (Fin 0)} \<longrightarrow>
      (\<exists>fs. map_of (tables d1 Item) (fld r ''ID'') = Some fs
         \<and> fs ''defaultPrice'' = Some (VNum (Fin 0))))
   \<and> (case_ItemBatch e r d = Inr d1
      \<and> parseNumber e (fld r ''pack_size'') \<in> {VNull, VNum (Fin 0)} \<longrightarrow>
      (\<exists>fs. map_of (tables d1 ItemBatch) (fld r ''ID'') = Some fs
         \<and> fs ''costPrice'' = Some (VNum (Fin 0)) \<and> fs ''sellPrice'' = Some (VNum (Fin 0))))
   \<and> (case_StocktakeBatch e r d = Inr d1
      \<and> parseNumber e (fld r ''snapshot_packsize'') \<in> {VNull, VNum (Fin 0)} \<longrightarrow>
      (\<exists>fs. map_of (tables d1 StocktakeBatch) (fld r ''ID'') = Some fs
         \<and> fs ''costPrice'' = Some (VNum (Fin 0)) \<and> fs ''sellPrice'' = Some (VNum (Fin 0))))
   \<and> (case_TransactionBatch e r d = Inr d1
      \<and> parseNumber e (fld r ''pack_size'') \<in> {VNull, VNum (Fin 0)} \<longrightarrow>
      (\<exists>fs. map_of (tables d1 TransactionBatch) (fld r ''ID'') = Some fs
         \<and> fs ''costPrice'' = Some (VNum (Fin 0)) \<and> fs ''sellPrice'' = Some (VNum (Fin 0))))"
proof (intro conjI impI)
  assume "truthy (sanityCheckIncomingRecord RequisitionItem r)
      \<and> map_of (tables d Requisition) (fld r ''requisition_ID'') = Some rq
      \<and> rq ''daysToSupply'' = Some (VNum (Fin 0))"
  then show "\<exists>d' fs. createOrUpdateRecord e RequisitionItem r d = Inr d'
         \<and> map_of (tables d' RequisitionItem) (fld r ''ID'') = Some fs
         \<and> fs ''dailyUsage'' = Some (VNum (Fin 0))"
    using guard_RequisitionItem [of r d rq e] by simp
next
  assume "truthy (sanityCheckIncomingRecord Item r)
      \<and> parseNumber e (fld r ''default_pack_size'') \<in> {VNull, VNum (Fin 0)}"
  then show "\<exists>d' fs. createOrUpdateRecord e Item r d = Inr d'
         \<and> map_of (tables d' Item) (fld r ''ID'') = Some fs
         \<and> fs ''defaultPrice'' = Some (VNum (Fin 0))"
    using guard_Item [of r e d] by simp
next
  assume "truthy (sanityCheckIncomingRecord ItemBatch r)
      \<and> parseNumber e (fld r ''pack_size'') \<in> {VNull, VNum (Fin 0)}"
  then show "\<exists>d' fs. createOrUpdateRecord e ItemBatch r d = Inr d'
         \<and> map_of (tables d' ItemBatch) (fld r ''ID'') = Some fs
         \<and> fs ''costPrice'' = Some (VNum (Fin 0)) \<and> fs ''sellPrice'' = Some (VNum (Fin 0))"
    using guard_ItemBatch [of r e d] by simp
next
  assume "truthy (sanityCheckIncomingRecord StocktakeBatch r)
      \<and> parseNumber e (fld r ''snapshot_packsize'') \<in> {VNull, VNum (Fin 0)}"
  then show "\<exists>d' fs. createOrUpdateRecord e StocktakeBatch r d = Inr d'
         \<and> map_of (tables d' StocktakeBatch) (fld r ''ID'') = Some fs
         \<and> fs ''costPrice'' = Some (VNum (Fin 0)) \<and> fs ''sellPrice'' = Some (VNum (Fin 0))"
    using guard_StocktakeBatch [of r e d] by simp
next
  assume "truthy (sanityCheckIncomingRecord TransactionBatch r)
      \<and> parseNumber e (fld r ''pack_size'') \<in> {VNull, VNum (Fin 0)}"
  then show "\<exists>d' fs. createOrUpdateRecord e TransactionBatch r d = Inr d'
         \<and> map_of (tables d' TransactionBatch) (fld r ''ID'') = Some fs
         \<and> fs ''costPrice'' = Some (VNum (Fin 0)) \<and> fs ''sellPrice'' = Some (VNum (Fin 0))"
    using guard_TransactionBatch [of r e d] by simp
next
  assume "case_Item e r d = Inr d1
      \<and> parseNumber e (fld r ''default_pack_size'') \<in> {VNull, VNum (Fin 0)}"
  then show "\<exists>fs. map_of (tables d1 Item) (fld r ''ID'') = Some fs
         \<and> fs ''defaultPrice'' = Some (VNum (Fin 0))"
    using guard_body_Item [of e r d d1] falsy_zero_or_null by blast
next
  assume "case_ItemBatch e r d = Inr d1
      \<and> parseNumber e (fld r ''pack_size'') \<in> {VNull, VNum (Fin 0)}"
  then show "\<exists>fs. map_of (tables d1 ItemBatch) (fld r ''ID'') = Some fs
         \<and> fs ''costPrice'' = Some (VNum (Fin 0)) \<and> fs ''sellPrice'' = Some (VNum (Fin 0))"
    using guard_body_ItemBatch [of e r d d1] falsy_zero_or_null by blast
next
  assume "case_StocktakeBatch e r d = Inr d1
      \<and> parseNumber e (fld r ''snapshot_packsize'') \<in> {VNull, VNum (Fin 0)}"
  then show "\<exists>fs. map_of (tables d1 StocktakeBatch) (fld r ''ID'') = Some fs
         \<and> fs ''costPrice'' = Some (VNum (Fin 0)) \<and> fs ''sellPrice'' = Some (VNum (Fin 0))"
    using guard_body_StocktakeBatch [of e r d d1] falsy_zero_or_null by blast
next
  assume "case_TransactionBatch e r d = Inr d1
      \<and> parseNumber e (fld r ''pack_size'') \<in> {VNull, VNum (Fin 0)}"
  then show "\<exists>fs. map_of (tables d1 TransactionBatch) (fld r ''ID'') = Some fs
         \<and> fs ''costPrice'' = Some (VNum (Fin 0)) \<and> fs ''sellPrice'' = Some (VNum (Fin 0))"
    using guard_body_TransactionBatch [of e r d d1] falsy_zero_or_null by blast
qed

theorem division_guards_witness:
  "truthy (sanityCheckIncomingRecord RequisitionItem demoRequisitionItem)
   \<and> map_of (tables demoRequisitionDB Requisition) (VStr ''R1'')
       = Some [''daysToSupply'' \<mapsto> VNum (Fin 0)]
   \<and> (\<exists>d' fs. createOrUpdateRecord demoEnv RequisitionItem demoRequisitionItem
           demoRequisitionDB = Inr d'
         \<and> map_of (tables d' RequisitionItem) (VStr ''RI1'') = Some fs
         \<and> fs ''dailyUsage'' = Some (VNum (Fin 0)))
   \<and> truthy (sanityCheckIncomingRecord Item (demoItem ''0''))
   \<and> parseNumber demoEnv (fld (demoItem ''0'') ''default_pack_size'') = VNum (Fin 0)
   \<and> (\<exists>d' fs. createOrUpdateRecord demoEnv Item (demoItem ''0'') emptyDB = Inr d'
         \<and> map_of (tables d' Item) (VStr ''I1'') = Some fs
         \<and> fs ''defaultPrice'' = Some (VNum (Fin 0)))
   \<and> truthy (sanityCheckIncomingRecord ItemBatch (demoItemBatch ''0''))
   \<and> (\<exists>d' fs. createOrUpdateRecord demoEnv ItemBatch (demoItemBatch ''0'') emptyDB = Inr d'
         \<and> map_of (tables d' ItemBatch) (VStr ''B1'') = Some fs
         \<and> fs ''costPrice'' = Some (VNum (Fin 0)) \<and> fs ''sellPrice'' = Some (VNum (Fin 0)))
   \<and> truthy (sanityCheckIncomingRecord StocktakeBatch (demoStocktakeBatch ''0''))
   \<and> (\<exists>d' fs. createOrUpdateRecord demoEnv StocktakeBatch (demoStocktakeBatch ''0'') emptyDB
           = Inr d'
         \<and> map_of (tables d' StocktakeBatch) (VStr ''SB1'') = Some fs
         \<and> fs ''costPrice'' = Some (VNum (Fin 0)) \<and> fs ''sellPrice'' = Some (VNum (Fin 0)))
   \<and> truthy (sanityCheckIncomingRecord TransactionBatch (demoTransactionBatch ''0''))
   \<and> (\<exists>d' fs. createOrUpdateRecord demoEnv TransactionBatch (demoTransactionBatch ''0'')
           emptyDB = Inr d'
         \<and> map_of (tables d' TransactionBatch) (VStr ''TB1'') = Some fs
         \<and> fs ''costPrice'' = Some (VNum (Fin 0)) \<and> fs ''sellPrice'' = Some (VNum (Fin 0)))
   \<and> \<not> truthy (sanityCheckIncomingRecord Item ((demoItem ''2'')(''default_pack_size'' := None)))
   \<and> parseNumber demoEnv (fld ((demoItem ''2'')(''default_pack_size'' := None))
         ''default_pack_size'') = VNull
   \<and> (\<exists>d1 fs. case_Item demoEnv ((demoItem ''2'')(''default_pack_size'' := None)) emptyDB
           = Inr d1
         \<and> map_of (tables d1 Item) (VStr ''I1'') = Some fs
         \<and> fs ''defaultPrice'' = Some (VNum (Fin 0)))
   \<and> \<not> truthy (sanityCheckIncomingRecord ItemBatch (demoItemBatch []))
   \<and> (\<exists>d1 fs. case_ItemBatch demoEnv (demoItemBatch []) emptyDB = Inr d1
         \<and> map_of (tables d1 ItemBatch) (VStr ''B1'') = Some fs
         \<and> fs ''costPrice'' = Some (VNum (Fin 0)) \<and> fs ''sellPrice'' = Some (VNum (Fin 0)))
   \<and> \<not> truthy (sanityCheckIncomingRecord StocktakeBatch (demoStocktakeBatch []))
   \<and> (\<exists>d1 fs. case_StocktakeBatch demoEnv (demoStocktakeBatch []) emptyDB = Inr d1
         \<and> map_of (tables d1 StocktakeBatch) (VStr ''SB1'') = Some fs
         \<and> fs ''costPrice'' = Some (VNum (Fin 0)) \<and> fs ''sellPrice'' = Some (VNum (Fin 0)))
   \<and> \<not> truthy (sanityCheckIncomingRecord TransactionBatch (demoTransactionBatch []))
   \<and> (\<exists>d1 fs. case_TransactionBatch demoEnv (demoTransactionBatch []) emptyDB = Inr d1
         \<and> map_of (tables d1 TransactionBatch) (VStr ''TB1'') = Some fs
         \<and> fs ''costPrice'' = Some (VNum (Fin 0)) \<and> fs ''sellPrice'' = Some (VNum (Fin 0)))"
proof -
  let ?noPack = "(demoItem ''2'')(''default_pack_size'' := None)"
  have n: "\<not> truthy (sanityCheckIncomingRecord Item ?noPack)"
    by (simp add: sanityCheckIncomingRecord_def truthy_js_ands truthy_js_and fld_def
          demoItem_def)
  have u: "fld ?noPack ''ID'' = VStr ''I1''"
    "fld (demoItemBatch []) ''ID'' = VStr ''B1''"
    "fld (demoStocktakeBatch []) ''ID'' = VStr ''SB1''"
    "fld (demoTransactionBatch []) ''ID'' = VStr ''TB1''"
    "parseNumber demoEnv (fld ?noPack ''default_pack_size'') = VNull"
    "parseNumber demoEnv (fld (demoItemBatch []) ''pack_size'') = VNull"
    "parseNumber demoEnv (fld (demoStocktakeBatch []) ''snapshot_packsize'') = VNull"
    "parseNumber demoEnv (fld (demoTransactionBatch []) ''pack_size'') = VNull"
    by (simp_all add: fld_def demoItemBatch_def demoStocktakeBatch_def
          demoTransactionBatch_def demoItem_def parseNumber_def)
  have t: "truthy (fld (demoItemBatch []) ''item_ID'')"
    "truthy (fld (demoStocktakeBatch []) ''stock_take_ID'')"
    "truthy (fld (demoTransactionBatch []) ''transaction_ID'')"
    "truthy (fld (demoTransactionBatch []) ''item_line_ID'')"
    "truthy (fld (demoTransactionBatch []) ''item_ID'')"
    by (simp_all add: fld_def demoItemBatch_def demoStocktakeBatch_def
          demoTransactionBatch_def)
  from case_Item_runs obtain dI where
    rI: "case_Item demoEnv ?noPack emptyDB = Inr dI"
    by blast
  from case_ItemBatch_runs [OF t(1)] obtain dB where
    rB: "case_ItemBatch demoEnv (demoItemBatch []) emptyDB = Inr dB"
    by blast
  from case_StocktakeBatch_runs [OF t(2)] obtain dS where
    rS: "case_StocktakeBatch demoEnv (demoStocktakeBatch []) emptyDB = Inr dS"
    by blast
  from case_TransactionBatch_runs [OF t(3) t(4) t(5)] obtain dT where
    rT: "case_TransactionBatch demoEnv (demoTransactionBatch []) emptyDB = Inr dT"
    by blast
  from division_guards [of ?noPack emptyDB Map.empty demoEnv dI] rI
  have bI: "\<exists>fs. map_of (tables dI Item) (VStr ''I1'') = Some fs
         \<and> fs ''defaultPrice'' = Some (VNum (Fin 0))"
    by (simp add: u)
  from division_guards [of "demoItemBatch []" emptyDB Map.empty demoEnv dB] rB
  have bB: "\<exists>fs. map_of (tables dB ItemBatch) (VStr ''B1'') = Some fs
         \<and> fs ''costPrice'' = Some (VNum (Fin 0)) \<and> fs ''sellPrice'' = Some (VNum (Fin 0))"
    by (simp add: u)
  from division_guards [of "demoStocktakeBatch []" emptyDB Map.empty demoEnv dS] rS
  have bS: "\<exists>fs. map_of (tables dS StocktakeBatch) (VStr ''SB1'') = Some fs
         \<and> fs ''costPrice'' = Some (VNum (Fin 0)) \<and> fs ''sellPrice'' = Some (VNum (Fin 0))"
    by (simp add: u)
  from division_guards [of "demoTransactionBatch []" emptyDB Map.empty demoEnv dT] rT
  have bT: "\<exists>fs. map_of (tables dT TransactionBatch) (VStr ''TB1'') = Some fs
         \<and> fs ''costPrice'' = Some (VNum (Fin 0)) \<and> fs ''sellPrice'' = Some (VNum (Fin 0))"
    by (simp add: u)
  have bodies: "(\<exists>d1 fs. case_Item demoEnv ?noPack emptyDB = Inr d1
         \<and> map_of (tables d1 Item) (VStr ''I1'') = Some fs
         \<and> fs ''defaultPrice'' = Some (VNum (Fin 0)))"
    "(\<exists>d1 fs. case_ItemBatch demoEnv (demoItemBatch []) emptyDB = Inr d1
         \<and> map_of (tables d1 ItemBatch) (VStr ''B1'') = Some fs
         \<and> fs ''costPrice'' = Some (VNum (Fin 0)) \<and> fs ''sellPrice'' = Some (VNum (Fin 0)))"
    "(\<exists>d1 fs. case_StocktakeBatch demoEnv (demoStocktakeBatch []) emptyDB = Inr d1
         \<and> map_of (tables d1 StocktakeBatch) (VStr ''SB1'') = Some fs
         \<and> fs ''costPrice'' = Some (VNum (Fin 0)) \<and> fs ''sellPrice'' = Some (VNum (Fin 0)))"
    "(\<exists>d1 fs. case_TransactionBatch demoEnv (demoTransactionBatch []) emptyDB = Inr d1
         \<and> map_of (tables d1 TransactionBatch) (VStr ''TB1'') = Some fs
         \<and> fs ''costPrice'' = Some (VNum (Fin 0)) \<and> fs ''sellPrice'' = Some (VNum (Fin 0)))"
    using rI bI rB bB rS bS rT bT by blast+
  have v: "fld demoRequisitionItem ''ID'' = VStr ''RI1''"
    "fld demoRequisitionItem ''requisition_ID'' = VStr ''R1''"
    "fld (demoItem ''0'') ''ID'' = VStr ''I1''"
    "fld (demoItemBatch ''0'') ''ID'' = VStr ''B1''"
    "fld (demoStocktakeBatch ''0'') ''ID'' = VStr ''SB1''"
    "fld (demoTransactionBatch ''0'') ''ID'' = VStr ''TB1''"
    "parseNumber demoEnv (fld (demoItem ''0'') ''default_pack_size'') = VNum (Fin 0)"
    "parseNumber demoEnv (fld (demoItemBatch ''0'') ''pack_size'') = VNum (Fin 0)"
    "parseNumber demoEnv (fld (demoStocktakeBatch ''0'') ''snapshot_packsize'') = VNum (Fin 0)"
    "parseNumber demoEnv (fld (demoTransactionBatch ''0'') ''pack_size'') = VNum (Fin 0)"
    by (simp_all add: fld_def demoEnv_def demoItemBatch_def demoStocktakeBatch_def
          demoTransactionBatch_def demoItem_def demoRequisitionItem_def parseNumber_def)
  have q: "map_of (tables demoRequisitionDB Requisition) (VStr ''R1'')
       = Some [''daysToSupply'' \<mapsto> VNum (Fin 0)]"
    by (simp add: demoRequisitionDB_def)
  from division_guards [of demoRequisitionItem demoRequisitionDB
      "[''daysToSupply'' \<mapsto> VNum (Fin 0)]" demoEnv]
  have gR: "\<exists>d' fs. createOrUpdateRecord demoEnv RequisitionItem demoRequisitionItem
           demoRequisitionDB = Inr d'
         \<and> map_of (tables d' RequisitionItem) (VStr ''RI1'') = Some fs
         \<and> fs ''dailyUsage'' = Some (VNum (Fin 0))"
    by (simp add: sanity_demo_batches v q)
  from division_guards [of "demoItem ''0''" emptyDB Map.empty demoEnv]
  have gI: "\<exists>d' fs. createOrUpdateRecord demoEnv Item (demoItem ''0'') emptyDB = Inr d'
         \<and> map_of (tables d' Item) (VStr ''I1'') = Some fs
         \<and> fs ''defaultPrice'' = Some (VNum (Fin 0))"
    by (simp add: sanity_demo_batches v)
  from division_guards [of "demoItemBatch ''0''" emptyDB Map.empty demoEnv]
  have gB: "\<exists>d' fs. createOrUpdateRecord demoEnv ItemBatch (demoItemBatch ''0'') emptyDB
           = Inr d'
         \<and> map_of (tables d' ItemBatch) (VStr ''B1'') = Some fs
         \<and> fs ''costPrice'' = Some (VNum (Fin 0)) \<and> fs ''sellPrice'' = Some (VNum (Fin 0))"
    by (simp add: sanity_demo_batches v)
  from division_guards [of "demoStocktakeBatch ''0''" emptyDB Map.empty demoEnv]
  have gS: "\<exists>d' fs. createOrUpdateRecord demoEnv StocktakeBatch (demoStocktakeBatch ''0'')
           emptyDB = Inr d'
         \<and> map_of (tables d' StocktakeBatch) (VStr ''SB1'') = Some fs
         \<and> fs ''costPrice'' = Some (VNum (Fin 0)) \<and> fs ''sellPrice'' = Some (VNum (Fin 0))"
    by (simp add: sanity_demo_batches v)
  from division_guards [of "demoTransactionBatch ''0''" emptyDB Map.empty demoEnv]
  have gT: "\<exists>d' fs. createOrUpdateRecord demoEnv TransactionBatch
           (demoTransactionBatch ''0'') emptyDB = Inr d'
         \<and> map_of (tables d' TransactionBatch) (VStr ''TB1'') = Some fs
         \<and> fs ''costPrice'' = Some (VNum (Fin 0)) \<and> fs ''sellPrice'' = Some (VNum (Fin 0))"
    by (simp add: sanity_demo_batches v)
  from gR gI gB gS gT bodies show ?thesis
    by (simp add: sanity_demo_batches v q n u)
qed

subsection \<open>Idempotence of integration\<close>

text \<open>
  The second application of a record runs on the database the first one left. Its lookups
  find every object the first application resolved or created, and its writes repeat the
  first application's: an upsert of the same entity, the same field assignments, and
  additions of dependents that are already there.
\<close>

lemma addTo_idem: "addTo c x (addTo c x fs) = addTo c x fs"
  by (simp add: addTo_def)

lemma map_entry_idem:
  "(\<And>x. f (f x) = f x) \<Longrightarrow>
     AList.map_entry k f (AList.map_entry k f t) = AList.map_entry k f t"
  by (induction t) auto

lemma map_entry_addTo_twice [simp]:
  "AList.map_entry k (addTo c x) (AList.map_entry k (addTo c x) t)
     = AList.map_entry k (addTo c x) t"
  by (rule map_entry_idem) (rule addTo_idem)

lemma map_entry_put_twice [simp]:
  "AList.map_entry k (\<lambda>fs. fs(f \<mapsto> v)) (AList.map_entry k (\<lambda>fs. fs(f \<mapsto> v)) t)
     = AList.map_entry k (\<lambda>fs. fs(f \<mapsto> v)) t"
  by (rule map_entry_idem) simp

lemma addTo_put_commute:
  "c \<noteq> f \<Longrightarrow> (addTo c x fs)(f \<mapsto> v) = addTo c x (fs(f \<mapsto> v))"
  by (auto simp add: addTo_def fun_upd_twist)

lemma map_entry_put_addTo [simp]:
  "c \<noteq> f \<Longrightarrow>
   AList.map_entry k (\<lambda>fs. fs(f \<mapsto> v)) (AList.map_entry k (addTo c x) t)
     = AList.map_entry k (addTo c x) (AList.map_entry k (\<lambda>fs. fs(f \<mapsto> v)) t)"
  by (induction t) (auto simp add: addTo_put_commute)

lemma db_tables_same [simp]: "d\<lparr>tables := tables d\<rparr> = d"
  by simp

lemmas idem_simps = run_defs getObject_templates addDependent_refOf setField_refOf
  keys_ensureRow ensureRow_present dom_update dom_map_entry update_map_entry

lemma parseNumber_clock [simp]: "parseNumber (e\<lparr>clock := t\<rparr>) v = parseNumber e v"
  by (simp add: parseNumber_def)

lemma jmul_clock [simp]: "jmul (e\<lparr>clock := t\<rparr>) a b = jmul e a b"
  by (cases a; cases b) simp_all

lemma jdiv_clock [simp]: "jdiv (e\<lparr>clock := t\<rparr>) a b = jdiv e a b"
  by (cases a; cases b) simp_all

lemma js_mul_clock [simp]: "js_mul (e\<lparr>clock := t\<rparr>) a b = js_mul e a b"
  by (simp add: js_mul_def)

lemma js_div_clock [simp]: "js_div (e\<lparr>clock := t\<rparr>) a b = js_div e a b"
  by (simp add: js_div_def)

lemma idem_Item:
  "thenM (case_Item e r) (case_Item (e\<lparr>clock := t\<rparr>) r) d
     = case_Item e r d"
  by (simp add: case_Item_def idem_simps)

lemma idem_ItemCategory:
  "thenM (case_ItemCategory e r) (case_ItemCategory (e\<lparr>clock := t\<rparr>) r) d
     = case_ItemCategory e r d"
  by (simp add: case_ItemCategory_def idem_simps)

lemma idem_ItemDepartment:
  "thenM (case_ItemDepartment e r) (case_ItemDepartment (e\<lparr>clock := t\<rparr>) r) d
     = case_ItemDepartment e r d"
  by (simp add: case_ItemDepartment_def idem_simps)

lemma idem_ItemBatch:
  "thenM (case_ItemBatch e r) (case_ItemBatch (e\<lparr>clock := t\<rparr>) r) d
     = case_ItemBatch e r d"
  by (simp add: case_ItemBatch_def idem_simps)

lemma idem_ItemStoreJoin:
  "thenM (case_ItemStoreJoin e r) (case_ItemStoreJoin (e\<lparr>clock := t\<rparr>) r) d
     = case_ItemStoreJoin e r d"
  by (simp add: case_ItemStoreJoin_def idem_simps)

lemma idem_MasterListNameJoin:
  "thenM (case_MasterListNameJoin e r) (case_MasterListNameJoin (e\<lparr>clock := t\<rparr>) r) d
     = case_MasterListNameJoin e r d"
  by (simp add: case_MasterListNameJoin_def idem_simps)

lemma idem_MasterList:
  "thenM (case_MasterList e r) (case_MasterList (e\<lparr>clock := t\<rparr>) r) d
     = case_MasterList e r d"
  by (simp add: case_MasterList_def idem_simps)

lemma idem_MasterListItem:
  "thenM (case_MasterListItem e r) (case_MasterListItem (e\<lparr>clock := t\<rparr>) r) d
     = case_MasterListItem e r d"
  by (simp add: case_MasterListItem_def idem_simps)

lemma idem_NameStoreJoin:
  "thenM (case_NameStoreJoin e r) (case_NameStoreJoin (e\<lparr>clock := t\<rparr>) r) d
     = case_NameStoreJoin e r d"
  by (simp add: case_NameStoreJoin_def idem_simps)

lemma idem_NumberSequence:
  "thenM (case_NumberSequence e r) (case_NumberSequence (e\<lparr>clock := t\<rparr>) r) d
     = case_NumberSequence e r d"
  by (simp add: case_NumberSequence_def idem_simps)

lemma idem_Requisition:
  "thenM (case_Requisition e r) (case_Requisition (e\<lparr>clock := t\<rparr>) r) d
     = case_Requisition e r d"
  by (simp add: case_Requisition_def idem_simps)

lemma idem_Stocktake:
  "thenM (case_Stocktake e r) (case_Stocktake (e\<lparr>clock := t\<rparr>) r) d
     = case_Stocktake e r d"
  by (simp add: case_Stocktake_def idem_simps)

lemma idem_StocktakeBatch:
  "thenM (case_StocktakeBatch e r) (case_StocktakeBatch (e\<lparr>clock := t\<rparr>) r) d
     = case_StocktakeBatch e r d"
  by (simp add: case_StocktakeBatch_def idem_simps)

lemma idem_Transaction:
  "thenM (case_Transaction e r) (case_Transaction (e\<lparr>clock := t\<rparr>) r) d
     = case_Transaction e r d"
  by (simp add: case_Transaction_def idem_simps)

lemma idem_TransactionCategory:
  "thenM (case_TransactionCategory e r) (case_TransactionCategory (e\<lparr>clock := t\<rparr>) r) d
     = case_TransactionCategory e r d"
  by (simp add: case_TransactionCategory_def idem_simps)

lemma idem_TransactionBatch:
  "thenM (case_TransactionBatch e r) (case_TransactionBatch (e\<lparr>clock := t\<rparr>) r) d
     = case_TransactionBatch e r d"
  by (simp add: case_TransactionBatch_def idem_simps)

lemma getField_after_addTo [simp]:
  "c \<noteq> f \<Longrightarrow>
   (case map_of (AList.map_entry k (addTo c x) t) k of None \<Rightarrow> VUndef
    | Some fs \<Rightarrow> (case fs f of None \<Rightarrow> VUndef | Some v \<Rightarrow> v)) =
   (case map_of t k of None \<Rightarrow> VUndef
    | Some fs \<Rightarrow> (case fs f of None \<Rightarrow> VUndef | Some v \<Rightarrow> v))"
  by (simp add: map_of_map_entry addTo_def split: option.splits)

lemma idem_RequisitionItem:
  "thenM (case_RequisitionItem e r) (case_RequisitionItem (e\<lparr>clock := t\<rparr>) r) d
     = case_RequisitionItem e r d"
  by (simp add: case_RequisitionItem_def idem_simps
        getObject_id_no_template [of Requisition, simplified])

lemma getOrCreateAddress_total:
  "\<exists>x d1. getOrCreateAddress e l1 l2 l3 l4 z d = Inr (x, d1)"
  by (cases "filter (matchesSupplied (suppliedAddressFields l1 l2 l3 l4 z)) (tables d Address)")
     (simp_all add: getOrCreateAddress_query)

lemma idem_Name:
  "thenM (case_Name e r) (case_Name (e\<lparr>clock := t\<rparr>) r) d
     = case_Name e r d"
proof -
  obtain x d1 where a: "getOrCreateAddress e (fld r ''bill_address1'') (fld r ''bill_address2'')
      (fld r ''bill_address3'') (fld r ''bill_address4'') (fld r ''bill_postal_zip_code'') d
      = Inr (x, d1)"
    using getOrCreateAddress_total by blast
  show ?thesis
    by (simp add: case_Name_def run_defs a
          getOrCreateAddress_stable [OF a, where e' = "e\<lparr>clock := t\<rparr>"])
qed

lemma list_case_map_fst:
  "(case xs of [] \<Rightarrow> A | row # rest \<Rightarrow> B (fst row)) =
     (case map fst xs of [] \<Rightarrow> A | k # ks \<Rightarrow> B k)"
  by (cases xs) auto

lemma filter_map_entry_keys:
  "(\<And>fs. Q (g fs) = Q fs) \<Longrightarrow>
     map fst (filter (\<lambda>row. Q (snd row)) (AList.map_entry k g t))
       = map fst (filter (\<lambda>row. Q (snd row)) t)"
  by (induction t) auto

lemma getObject_sequenceKey:
  "truthy k \<Longrightarrow> getObject e NumberSequence k ''sequenceKey'' d =
     (case map fst (filter (\<lambda>row. snd row ''sequenceKey'' = Some k)
                      (tables d NumberSequence)) of
        kx # ks \<Rightarrow> Inr (VRef NumberSequence kx, d)
      | [] \<Rightarrow> Inr (VRef NumberSequence (uuidOf e (uuidCount d)),
                d\<lparr>tables := (tables d)(NumberSequence :=
                     AList.update (uuidOf e (uuidCount d)) [''sequenceKey'' \<mapsto> k]
                       (tables d NumberSequence)),
                  uuidCount := Suc (uuidCount d)\<rparr>))"
  by (simp add: getObject_def truthy_lengthLt1 filtered_def database_objects_def
        generatePlaceholder_def generateUUID_def run_defs split: list.splits)

lemma idem_NumberToReuse:
  "thenM (case_NumberToReuse e r) (case_NumberToReuse (e\<lparr>clock := t\<rparr>) r) d
     = case_NumberToReuse e r d"
proof (cases "truthy (SEQUENCE_KEYS e (fld r ''name'') (thisStoreId e))")
  case False
  then show ?thesis
    by (simp add: case_NumberToReuse_def run_defs)
next
  case True
  let ?k = "SEQUENCE_KEYS e (fld r ''name'') (thisStoreId e)"
  let ?Q = "\<lambda>fs. fs ''sequenceKey'' = Some ?k"
  have pres: "\<And>kx y t. map fst (filter (\<lambda>row. ?Q (snd row))
        (AList.map_entry kx (addTo ''numbersToReuse'' y) t))
      = map fst (filter (\<lambda>row. ?Q (snd row)) t)"
    by (rule filter_map_entry_keys) (simp add: addTo_def)
  show ?thesis
  proof (cases "filter (\<lambda>row. ?Q (snd row)) (tables d NumberSequence)")
    case Nil
    have "filter (\<lambda>row. ?Q (snd row))
        (AList.update (uuidOf e (uuidCount d)) [''sequenceKey'' \<mapsto> ?k]
           (tables d NumberSequence))
        = [(uuidOf e (uuidCount d), [''sequenceKey'' \<mapsto> ?k])]"
      by (rule filter_update_new [OF Nil]) simp
    with Nil True show ?thesis
      by (simp add: case_NumberToReuse_def run_defs getObject_sequenceKey pres)
  next
    case (Cons row rest)
    with True show ?thesis
      by (simp add: case_NumberToReuse_def run_defs getObject_sequenceKey pres)
  qed
qed

lemma thenM_doneM: "thenM doneM doneM d = doneM d"
  by (simp add: thenM_def doneM_def)

lemmas idem_cases = idem_Item idem_ItemCategory idem_ItemDepartment idem_ItemBatch
  idem_ItemStoreJoin idem_MasterListNameJoin idem_MasterList idem_MasterListItem idem_Name
  idem_NameStoreJoin idem_NumberSequence idem_NumberToReuse idem_Requisition
  idem_RequisitionItem idem_Stocktake idem_StocktakeBatch idem_Transaction
  idem_TransactionCategory idem_TransactionBatch

lemma createOrUpdateRecord_twice:
  "thenM (createOrUpdateRecord e T r) (createOrUpdateRecord (e\<lparr>clock := t\<rparr>) T r) d
     = createOrUpdateRecord e T r d"
  by (cases T) (simp_all add: createOrUpdateRecord_def thenM_doneM idem_cases)

text \<open>
  C1. For every record type and every sync record (those that pass the sanity check
  included), applying \<open>createOrUpdateRecord\<close> to the record and then, at any later
  time, to the same record again gives the result of applying it once: the same error,
  or the same database, table for table and field for field. In particular a second
  application to the database the first one returned returns that database unchanged.
\<close>

theorem createOrUpdateRecord_idempotent:
  "thenM (createOrUpdateRecord e T r) (createOrUpdateRecord (e\<lparr>clock := t\<rparr>) T r) d
     = createOrUpdateRecord e T r d
   \<and> (\<forall>d1. truthy (sanityCheckIncomingRecord T r)
           \<and> createOrUpdateRecord e T r d = Inr d1 \<longrightarrow>
         createOrUpdateRecord (e\<lparr>clock := t\<rparr>) T r d1 = Inr d1)"
  using createOrUpdateRecord_twice [of e T r t d]
  by (auto simp add: thenM_def)

theorem createOrUpdateRecord_idempotent_witness:
  "truthy (sanityCheckIncomingRecord TransactionBatch (demoTransactionBatch ''2''))
   \<and> (\<exists>d1 fs.
        createOrUpdateRecord demoEnv TransactionBatch (demoTransactionBatch ''2'') emptyDB = Inr d1
      \<and> map_of (tables d1 TransactionBatch) (VStr ''TB1'') = Some fs
      \<and> createOrUpdateRecord (demoEnv\<lparr>clock := 1\<rparr>) TransactionBatch
            (demoTransactionBatch ''2'') d1 = Inr d1)"
proof -
  have s: "truthy (sanityCheckIncomingRecord TransactionBatch (demoTransactionBatch ''2''))"
    by (simp add: sanity_demo_batches)
  have i: "fld (demoTransactionBatch ''2'') ''ID'' = VStr ''TB1''"
    by (simp add: fld_def demoTransactionBatch_def)
  from packs_TransactionBatch [OF s, of demoEnv emptyDB] obtain d1 fs where
    a: "createOrUpdateRecord demoEnv TransactionBatch (demoTransactionBatch ''2'') emptyDB = Inr d1"
    and b: "map_of (tables d1 TransactionBatch) (VStr ''TB1'') = Some fs"
    unfolding i by blast
  from createOrUpdateRecord_idempotent
      [of demoEnv TransactionBatch "demoTransactionBatch ''2''" 1 emptyDB] s a
  have "createOrUpdateRecord (demoEnv\<lparr>clock := 1\<rparr>) TransactionBatch
            (demoTransactionBatch ''2'') d1 = Inr d1"
    by blast
  with s a b show ?thesis
    by blast
qed

end
